theory Spec2Isabelle
  imports Complex_Main "HOL-Library.Code_Target_Numeral"
begin

section \<open>Data model\<close>

text \<open>
  The HTTP delivery layer of the auth service (\<^verbatim>\<open>internal/auth/delivery/http/handlers.go\<close>)
  and the Sanitize middleware (\<^verbatim>\<open>internal/middleware/sanitize.go\<close>).
  Every handler is a function from the echo context and the environment (the backing
  stores behind the use cases, the log, and the list of use-case calls made so far)
  to the context and environment it leaves behind.
\<close>

subsection \<open>Errors\<close>

text \<open>\<^verbatim>\<open>httpErrors.RestError\<close>, as the API definition declares it: \<^verbatim>\<open>error\<close> and \<^verbatim>\<open>status\<close>.\<close>

record RestError =
  ErrError :: string
  ErrStatus :: nat

text \<open>The two failures of \<^verbatim>\<open>strconv\<close>.\<close>

datatype conv_err = ErrSyntax | ErrRange

text \<open>
  Go \<^verbatim>\<open>error\<close> values: \<^verbatim>\<open>http.ErrNoCookie\<close>, the sentinel \<^verbatim>\<open>httpErrors.Unauthorized\<close>,
  \<^verbatim>\<open>*strconv.NumError\<close> (function, input, cause), a \<^verbatim>\<open>RestError\<close> used as an error,
  and any other error of a collaborator, identified by its message.
\<close>

datatype err =
    ErrNoCookie
  | Unauthorized
  | NumError string string conv_err
  | RestErr RestError
  | Err string

text \<open>The \<^verbatim>\<open>causes interface{}\<close> argument of the \<^verbatim>\<open>httpErrors\<close> constructors.\<close>

datatype cause = CauseErr err | CauseStr string

subsection \<open>Models\<close>

text \<open>\<^verbatim>\<open>models.User\<close>; the handlers assign the integer path parameter to \<^verbatim>\<open>ID\<close>.\<close>

record User =
  ID :: int
  first_name :: string
  last_name :: string
  email :: string
  password :: string
  role :: string
  about :: string
  avatar :: string
  phone_number :: string
  address :: string
  city :: string
  country :: string
  gender :: string
  postcode :: int
  birthday :: string
  created_at :: string
  updated_at :: string
  login_date :: string

text \<open>\<^verbatim>\<open>&models.User{}\<close>: every field at its zero value.\<close>

definition User_zero :: User where
  "User_zero = \<lparr> ID = 0, first_name = [], last_name = [], email = [], password = [],
     role = [], about = [], avatar = [], phone_number = [], address = [], city = [],
     country = [], gender = [], postcode = 0, birthday = [], created_at = [],
     updated_at = [], login_date = [] \<rparr>"

text \<open>
  The value the use cases \<^verbatim>\<open>Register\<close> and \<^verbatim>\<open>Login\<close> return; the handlers read
  \<^verbatim>\<open>.User.ID\<close> of it and serialise it whole.
\<close>

record UserWithToken =
  User :: User
  Token :: string

text \<open>\<^verbatim>\<open>models.Session\<close>; the handlers fill \<^verbatim>\<open>UserID\<close> only.\<close>

record Session =
  SessionID :: string
  UserID :: int

text \<open>\<^verbatim>\<open>models.UsersList\<close>, as the API definition declares it.\<close>

record UsersList =
  total_count :: int
  total_pages :: int
  page :: int
  size :: int
  has_more :: bool
  users :: "User list"

text \<open>The pagination query read from the request by \<^verbatim>\<open>utils.GetPaginationFromCtx\<close>.\<close>

record PaginationQuery =
  Size :: int
  Page :: int
  OrderBy :: string

text \<open>\<^verbatim>\<open>cfg.Session\<close>: the cookie name and the session lifetime in seconds.\<close>

record Config =
  Session_Name :: string
  Session_Expire :: int

subsection \<open>The echo context\<close>

text \<open>\<^verbatim>\<open>http.Cookie\<close>: the fields a session cookie carries.\<close>

record Cookie =
  Name :: string
  Value :: string
  MaxAge :: int

text \<open>
  The request: its cookies in header order, path parameters, query parameters, and
  what reading the body to its end gives (an error, or the bytes).
\<close>

record Request =
  ReqCookies :: "Cookie list"
  Params :: "string \<rightharpoonup> string"
  Query :: "string \<rightharpoonup> string"
  Body :: "err + string"

text \<open>
  Values kept in the context store, by dynamic type: \<^verbatim>\<open>*models.UserWithRole\<close>
  (opaque to the handlers), \<^verbatim>\<open>string\<close>, \<^verbatim>\<open>[]byte\<close>, anything else.
\<close>

datatype 'ur ctx_val = VUserWithRole 'ur | VString string | VBytes string | VOther

text \<open>What a handler serialises as the JSON body.\<close>

datatype 'ur json =
    JRestError RestError
  | JUserWithToken UserWithToken
  | JUser User
  | JUserWithRole 'ur
  | JUsersList UsersList

text \<open>
  The response: the status written (None while nothing is written), the body
  (None for \<^verbatim>\<open>NoContent\<close>), the headers the handlers set through \<^verbatim>\<open>Header().Set\<close>,
  and, in order, the cookies for which a \<^verbatim>\<open>Set-Cookie\<close> header was added.
\<close>

record 'ur Response =
  Status :: "nat option"
  RespBody :: "'ur json option"
  Header :: "(string \<times> string) list"
  SetCookies :: "Cookie list"

record 'ur Context =
  Req :: Request
  Store :: "string \<rightharpoonup> 'ur ctx_val"
  Resp :: "'ur Response"

definition StatusOK :: nat where "StatusOK = 200"
definition StatusCreated :: nat where "StatusCreated = 201"
definition StatusBadRequest :: nat where "StatusBadRequest = 400"
definition StatusUnauthorized :: nat where "StatusUnauthorized = 401"
definition StatusInternalServerError :: nat where "StatusInternalServerError = 500"

text \<open>\<^verbatim>\<open>c.JSON(code, v)\<close> and \<^verbatim>\<open>c.NoContent(code)\<close>.\<close>

definition JSON :: "nat \<Rightarrow> 'ur json \<Rightarrow> 'ur Context \<Rightarrow> 'ur Context" where
  "JSON code v c = c\<lparr>Resp := (Resp c)\<lparr>Status := Some code, RespBody := Some v\<rparr>\<rparr>"

definition NoContent :: "nat \<Rightarrow> 'ur Context \<Rightarrow> 'ur Context" where
  "NoContent code c = c\<lparr>Resp := (Resp c)\<lparr>Status := Some code, RespBody := None\<rparr>\<rparr>"

text \<open>The token bytes of HTTP: letters, digits and a few marks.\<close>

definition isTokenByte :: "char \<Rightarrow> bool" where
  "isTokenByte ch =
     (ch \<in> set (''ABCDEFGHIJKLMNOPQRSTUVWXYZ'' @ ''abcdefghijklmnopqrstuvwxyz'' @ ''0123456789''
                  @ ''!#$%&*+-.^_`|~'' @ [CHR 0x27]))"

text \<open>
  A cookie name is valid when it is not empty and made of token bytes only
  (\<^verbatim>\<open>isCookieNameValid\<close> of \<^verbatim>\<open>net/http\<close>).
\<close>

definition isCookieNameValid :: "string \<Rightarrow> bool" where
  "isCookieNameValid raw = (raw \<noteq> [] \<and> list_all isTokenByte raw)"

text \<open>
  \<^verbatim>\<open>c.SetCookie(cookie)\<close> is \<^verbatim>\<open>http.SetCookie\<close> on the response: the header
  \<^verbatim>\<open>Set-Cookie\<close> is added with the cookie's serialisation, and nothing is added when
  that is empty, which is so for a nil cookie (None) and for a cookie whose name is
  not valid.
\<close>

definition SetCookie :: "Cookie option \<Rightarrow> 'ur Context \<Rightarrow> 'ur Context" where
  "SetCookie cookie c =
     (case cookie of
        None \<Rightarrow> c
      | Some ck \<Rightarrow>
          if isCookieNameValid (Name ck)
          then c\<lparr>Resp := (Resp c)\<lparr>SetCookies := SetCookies (Resp c) @ [ck]\<rparr>\<rparr>
          else c)"

text \<open>
  \<^verbatim>\<open>textproto.CanonicalMIMEHeaderKey\<close>: a key made of token bytes only gets its first
  letter and every letter after a hyphen in upper case and the others in lower case;
  any other key is left as it is.
\<close>

definition toUpper :: "char \<Rightarrow> char" where
  "toUpper ch =
     (case map_of (zip ''abcdefghijklmnopqrstuvwxyz'' ''ABCDEFGHIJKLMNOPQRSTUVWXYZ'') ch of
        None \<Rightarrow> ch | Some u \<Rightarrow> u)"

definition toLower :: "char \<Rightarrow> char" where
  "toLower ch =
     (case map_of (zip ''ABCDEFGHIJKLMNOPQRSTUVWXYZ'' ''abcdefghijklmnopqrstuvwxyz'') ch of
        None \<Rightarrow> ch | Some l \<Rightarrow> l)"

fun canon :: "bool \<Rightarrow> string \<Rightarrow> string" where
  "canon up [] = []"
| "canon up (ch # cs) = (if up then toUpper ch else toLower ch) # canon (ch = CHR ''-'') cs"

definition CanonicalMIMEHeaderKey :: "string \<Rightarrow> string" where
  "CanonicalMIMEHeaderKey k = (if list_all isTokenByte k then canon True k else k)"

text \<open>
  \<^verbatim>\<open>c.Response().Header().Set(k, v)\<close> replaces the values of the header whose
  canonical key is that of \<open>k\<close>.
\<close>

definition HeaderSet :: "string \<Rightarrow> string \<Rightarrow> 'ur Context \<Rightarrow> 'ur Context" where
  "HeaderSet k v c =
     c\<lparr>Resp := (Resp c)\<lparr>Header :=
          filter (\<lambda>kv. fst kv \<noteq> CanonicalMIMEHeaderKey k) (Header (Resp c))
          @ [(CanonicalMIMEHeaderKey k, v)]\<rparr>\<rparr>"

text \<open>\<^verbatim>\<open>Header().Get(k)\<close>: the value stored under the canonical key of \<open>k\<close>.\<close>

definition HeaderGet :: "'ur Context \<Rightarrow> string \<Rightarrow> string option" where
  "HeaderGet c k = map_of (Header (Resp c)) (CanonicalMIMEHeaderKey k)"

text \<open>
  \<^verbatim>\<open>c.Cookie(name)\<close>: the first request cookie of that name, \<^verbatim>\<open>http.ErrNoCookie\<close>
  when there is none or the name is empty.
\<close>

definition Cookie_of :: "'ur Context \<Rightarrow> string \<Rightarrow> err + Cookie" where
  "Cookie_of c name =
     (if name = [] then Inl ErrNoCookie
      else case find (\<lambda>ck. Name ck = name) (ReqCookies (Req c)) of
             None \<Rightarrow> Inl ErrNoCookie
           | Some ck \<Rightarrow> Inr ck)"

text \<open>\<^verbatim>\<open>c.Param(name)\<close> and \<^verbatim>\<open>c.QueryParam(name)\<close>: the empty string when absent.\<close>

definition Param :: "'ur Context \<Rightarrow> string \<Rightarrow> string" where
  "Param c name = (case Params (Req c) name of None \<Rightarrow> [] | Some v \<Rightarrow> v)"

definition QueryParam :: "'ur Context \<Rightarrow> string \<Rightarrow> string" where
  "QueryParam c name = (case Query (Req c) name of None \<Rightarrow> [] | Some v \<Rightarrow> v)"

section \<open>Collaborators\<close>

subsection \<open>The environment\<close>

text \<open>
  One entry per call of a use case. \<open>'rr\<close> and \<open>'lr\<close> are \<^verbatim>\<open>dto.RegisterUserRequest\<close>
  and \<^verbatim>\<open>dto.LoginUserRequest\<close>, which the handlers only pass on.
\<close>

datatype ('rr, 'lr) call =
    CallRegister 'rr
  | CallLogin 'lr
  | CallUpdate User
  | CallDelete int
  | CallGetByID int
  | CallFindByName string PaginationQuery
  | CallCreateSession Session int
  | CallDeleteByID string

text \<open>
  The environment a handler runs in: the state \<open>'w\<close> of the stores behind the use
  cases, the use-case calls made so far, and the errors given to the logger.
\<close>

record ('w, 'rr, 'lr) env =
  world :: 'w
  calls :: "('rr, 'lr) call list"
  logged :: "err list"

text \<open>Calling a use case: it runs on the stores, and the call is recorded.\<close>

definition invoke ::
  "('rr, 'lr) call \<Rightarrow> ('w \<Rightarrow> 'a \<times> 'w) \<Rightarrow> ('w, 'rr, 'lr) env \<Rightarrow> 'a \<times> ('w, 'rr, 'lr) env" where
  "invoke k f s = (case f (world s) of (r, w') \<Rightarrow> (r, s\<lparr>world := w', calls := calls s @ [k]\<rparr>))"

text \<open>\<^verbatim>\<open>utils.LogResponseError(c, h.logger, err)\<close> writes to the log only.\<close>

definition LogResponseError :: "err \<Rightarrow> ('w, 'rr, 'lr) env \<Rightarrow> ('w, 'rr, 'lr) env" where
  "LogResponseError e s = s\<lparr>logged := logged s @ [e]\<rparr>"

subsection \<open>The use-case interfaces\<close>

text \<open>\<^verbatim>\<open>auth.UseCase\<close>: each method returns its result, or an error, and the new stores.\<close>

record ('w, 'rr, 'lr) UseCase =
  uc_Register :: "'rr \<Rightarrow> 'w \<Rightarrow> (err + UserWithToken) \<times> 'w"
  uc_Login :: "'lr \<Rightarrow> 'w \<Rightarrow> (err + UserWithToken) \<times> 'w"
  uc_Update :: "User \<Rightarrow> 'w \<Rightarrow> (err + User) \<times> 'w"
  uc_Delete :: "int \<Rightarrow> 'w \<Rightarrow> err option \<times> 'w"
  uc_GetByID :: "int \<Rightarrow> 'w \<Rightarrow> (err + User) \<times> 'w"
  uc_FindByName :: "string \<Rightarrow> PaginationQuery \<Rightarrow> 'w \<Rightarrow> (err + UsersList) \<times> 'w"

text \<open>\<^verbatim>\<open>session.UCSession\<close>: \<^verbatim>\<open>CreateSession\<close> returns the new session id.\<close>

record 'w UCSession =
  uc_CreateSession :: "Session \<Rightarrow> int \<Rightarrow> 'w \<Rightarrow> (err + string) \<times> 'w"
  uc_DeleteByID :: "string \<Rightarrow> 'w \<Rightarrow> err option \<times> 'w"

subsection \<open>Helper packages\<close>

text \<open>
  The functions of \<^verbatim>\<open>pkg/utils\<close>, \<^verbatim>\<open>pkg/httpErrors\<close> and \<^verbatim>\<open>pkg/csrf\<close> that the handlers
  call and whose bodies are outside the files at hand; they are parameters.
  \<^verbatim>\<open>utils.ReadRequest\<close> appears once per type it fills; for a user it starts from the
  struct the handler has prepared. \<^verbatim>\<open>httpErrors.ErrorResponse\<close> gives the status and
  the \<^verbatim>\<open>RestError\<close> body for an error. \<^verbatim>\<open>utils.CreateSessionCookie\<close> returns a
  \<^verbatim>\<open>*http.Cookie\<close>, None when it is nil.
\<close>

record ('ur, 'rr, 'lr) pkg =
  ReadRegister :: "'ur Context \<Rightarrow> err + 'rr"
  ReadLogin :: "'ur Context \<Rightarrow> err + 'lr"
  ReadUser :: "'ur Context \<Rightarrow> User \<Rightarrow> err + User"
  ErrorResponse :: "err \<Rightarrow> nat \<times> RestError"
  CreateSessionCookie :: "Config \<Rightarrow> string \<Rightarrow> Cookie option"
  DeleteSessionCookie :: "string \<Rightarrow> 'ur Context \<Rightarrow> 'ur Context"
  GetPaginationFromCtx :: "'ur Context \<Rightarrow> err + PaginationQuery"
  MakeToken :: "string \<Rightarrow> string"
  CSRFHeader :: string

text \<open>\<^verbatim>\<open>c.JSON(httpErrors.ErrorResponse(err))\<close>.\<close>

definition JSON_ErrorResponse :: "('ur, 'rr, 'lr) pkg \<Rightarrow> err \<Rightarrow> 'ur Context \<Rightarrow> 'ur Context" where
  "JSON_ErrorResponse P e c = JSON (fst (ErrorResponse P e)) (JRestError (snd (ErrorResponse P e))) c"

text \<open>
  Modelled from the spec: the constructors \<^verbatim>\<open>httpErrors.NewUnauthorizedError\<close>,
  \<^verbatim>\<open>httpErrors.NewBadRequestError\<close> and \<^verbatim>\<open>httpErrors.NewInternalServerError\<close> are
  missing. By the error taxonomy of the spec, a bad or missing input is 400, a missing
  or invalid session or credential is 401, a downstream failure is 500; the body
  is \<^verbatim>\<open>{error, status}\<close> and carries the kind only, never the cause.
\<close>

definition NewBadRequestError :: "cause \<Rightarrow> RestError" where
  "NewBadRequestError causes = \<lparr> ErrError = ''Bad request'', ErrStatus = 400 \<rparr>"

definition NewUnauthorizedError :: "cause \<Rightarrow> RestError" where
  "NewUnauthorizedError causes = \<lparr> ErrError = ''Unauthorized'', ErrStatus = 401 \<rparr>"

definition NewInternalServerError :: "cause \<Rightarrow> RestError" where
  "NewInternalServerError causes = \<lparr> ErrError = ''Internal Server Error'', ErrStatus = 500 \<rparr>"

text \<open>
  Modelled from the spec: \<^verbatim>\<open>utils.ErrResponseWithLog\<close> is missing. It logs the error
  and answers with the error's own status and the \<^verbatim>\<open>{error, status}\<close> body.
\<close>

definition ErrResponseWithLog ::
  "RestError \<Rightarrow> 'ur Context \<Rightarrow> ('w, 'rr, 'lr) env \<Rightarrow> 'ur Context \<times> ('w, 'rr, 'lr) env" where
  "ErrResponseWithLog e c s = (JSON (ErrStatus e) (JRestError e) c, LogResponseError (RestErr e) s)"

subsection \<open>strconv.Atoi\<close>

definition isDigit :: "char \<Rightarrow> bool" where
  "isDigit ch = (48 \<le> (of_char ch :: nat) \<and> (of_char ch :: nat) \<le> 57)"

text \<open>
  The digit loop of the fast path of \<^verbatim>\<open>Atoi\<close>: the value read so far is \<open>n\<close>; a
  byte that is no digit is a syntax error.
\<close>

fun digits_val :: "string \<Rightarrow> nat \<Rightarrow> nat option" where
  "digits_val [] n = Some n"
| "digits_val (ch # cs) n =
     (if isDigit ch then digits_val cs (n * 10 + (of_char ch - 48)) else None)"

text \<open>
  The digit loop of \<^verbatim>\<open>strconv.ParseUint\<close> in base 10 with 64 bits: bytes are taken
  from the left; a byte that is no digit is a syntax error, and a value that leaves
  \<^verbatim>\<open>uint64\<close> is a range error as soon as it is reached.
\<close>

fun ParseUint_loop :: "string \<Rightarrow> nat \<Rightarrow> conv_err + nat" where
  "ParseUint_loop [] n = Inr n"
| "ParseUint_loop (ch # cs) n =
     (if \<not> isDigit ch then Inl ErrSyntax
      else if (2 ^ 64 - 1) div 10 + 1 \<le> n then Inl ErrRange
      else if 2 ^ 64 - 1 < n * 10 + (of_char ch - 48) then Inl ErrRange
      else ParseUint_loop cs (n * 10 + (of_char ch - 48)))"

definition ParseUint :: "string \<Rightarrow> conv_err + nat" where
  "ParseUint s = (if s = [] then Inl ErrSyntax else ParseUint_loop s 0)"

text \<open>
  \<^verbatim>\<open>strconv.ParseInt(s, 10, 0)\<close> for a 64-bit \<^verbatim>\<open>int\<close>: the sign is taken off, the rest
  goes through \<^verbatim>\<open>ParseUint\<close>; a range error there leaves the largest \<^verbatim>\<open>uint64\<close>, which
  is out of range again here.
\<close>

definition ParseInt :: "string \<Rightarrow> err + int" where
  "ParseInt s =
     (if s = [] then Inl (NumError ''ParseInt'' s ErrSyntax)
      else
        (let neg = (hd s = CHR ''-'');
             ds = (if hd s = CHR ''+'' \<or> hd s = CHR ''-'' then tl s else s)
         in case ParseUint ds of
              Inl ErrSyntax \<Rightarrow> Inl (NumError ''ParseInt'' s ErrSyntax)
            | r \<Rightarrow>
                (let un = (case r of Inl _ \<Rightarrow> 2 ^ 64 - 1 | Inr n \<Rightarrow> n)
                 in if \<not> neg \<and> 2 ^ 63 \<le> un then Inl (NumError ''ParseInt'' s ErrRange)
                    else if neg \<and> 2 ^ 63 < un then Inl (NumError ''ParseInt'' s ErrRange)
                    else Inr (if neg then - int un else int un))))"

text \<open>
  \<^verbatim>\<open>strconv.Atoi\<close> for a 64-bit \<^verbatim>\<open>int\<close>: strings of 1 to 18 bytes take the fast path,
  where no overflow can happen; the others go through \<^verbatim>\<open>ParseInt\<close>, whose error is
  renamed to \<^verbatim>\<open>Atoi\<close>.
\<close>

definition Atoi :: "string \<Rightarrow> err + int" where
  "Atoi s =
     (if 0 < length s \<and> length s < 19
      then
        (let ds = (if hd s = CHR ''-'' \<or> hd s = CHR ''+'' then tl s else s)
         in if ds = [] then Inl (NumError ''Atoi'' s ErrSyntax)
            else case digits_val ds 0 of
                   None \<Rightarrow> Inl (NumError ''Atoi'' s ErrSyntax)
                 | Some n \<Rightarrow> Inr (if hd s = CHR ''-'' then - int n else int n))
      else
        (case ParseInt s of
           Inl (NumError f num k) \<Rightarrow> Inl (NumError ''Atoi'' num k)
         | r \<Rightarrow> r))"

section \<open>The auth handlers\<close>

text \<open>The \<^verbatim>\<open>authHandlers\<close> struct: configuration and the two use cases.\<close>

record ('w, 'rr, 'lr) authHandlers =
  cfg :: Config
  authUC :: "('w, 'rr, 'lr) UseCase"
  sessUC :: "'w UCSession"

text \<open>
  \<^verbatim>\<open>Register\<close>: read the request, create the user, create the session, set the
  session cookie, answer 201 with the created user. Each failure logs the error and
  answers with its error response.
\<close>

definition Register ::
  "('w, 'rr, 'lr) authHandlers \<Rightarrow> ('ur, 'rr, 'lr) pkg \<Rightarrow> 'ur Context \<Rightarrow> ('w, 'rr, 'lr) env
     \<Rightarrow> 'ur Context \<times> ('w, 'rr, 'lr) env" where
  "Register h P c s =
     (case ReadRegister P c of
        Inl e \<Rightarrow> (JSON_ErrorResponse P e c, LogResponseError e s)
      | Inr user \<Rightarrow>
          (case invoke (CallRegister user) (uc_Register (authUC h) user) s of
             (Inl e, s1) \<Rightarrow> (JSON_ErrorResponse P e c, LogResponseError e s1)
           | (Inr createdUser, s1) \<Rightarrow>
               (let sess0 = \<lparr> SessionID = [], UserID = ID (User createdUser) \<rparr>;
                    expire = Session_Expire (cfg h)
                in case invoke (CallCreateSession sess0 expire)
                          (uc_CreateSession (sessUC h) sess0 expire) s1 of
                     (Inl e, s2) \<Rightarrow> (JSON_ErrorResponse P e c, LogResponseError e s2)
                   | (Inr sess, s2) \<Rightarrow>
                       (JSON StatusCreated (JUserWithToken createdUser)
                          (SetCookie (CreateSessionCookie P (cfg h) sess) c), s2))))"

text \<open>\<^verbatim>\<open>Login\<close>: as \<^verbatim>\<open>Register\<close>, with the login use case and status 200.\<close>

definition Login ::
  "('w, 'rr, 'lr) authHandlers \<Rightarrow> ('ur, 'rr, 'lr) pkg \<Rightarrow> 'ur Context \<Rightarrow> ('w, 'rr, 'lr) env
     \<Rightarrow> 'ur Context \<times> ('w, 'rr, 'lr) env" where
  "Login h P c s =
     (case ReadLogin P c of
        Inl e \<Rightarrow> (JSON_ErrorResponse P e c, LogResponseError e s)
      | Inr login \<Rightarrow>
          (case invoke (CallLogin login) (uc_Login (authUC h) login) s of
             (Inl e, s1) \<Rightarrow> (JSON_ErrorResponse P e c, LogResponseError e s1)
           | (Inr userWithToken, s1) \<Rightarrow>
               (let sess0 = \<lparr> SessionID = [], UserID = ID (User userWithToken) \<rparr>;
                    expire = Session_Expire (cfg h)
                in case invoke (CallCreateSession sess0 expire)
                          (uc_CreateSession (sessUC h) sess0 expire) s1 of
                     (Inl e, s2) \<Rightarrow> (JSON_ErrorResponse P e c, LogResponseError e s2)
                   | (Inr sess, s2) \<Rightarrow>
                       (JSON StatusOK (JUserWithToken userWithToken)
                          (SetCookie (CreateSessionCookie P (cfg h) sess) c), s2))))"

text \<open>
  \<^verbatim>\<open>Logout\<close>: the cookie is looked up under the fixed name \<^verbatim>\<open>session-id\<close>; the cookie
  deleted afterwards is the one named in the configuration.
\<close>

definition Logout ::
  "('w, 'rr, 'lr) authHandlers \<Rightarrow> ('ur, 'rr, 'lr) pkg \<Rightarrow> 'ur Context \<Rightarrow> ('w, 'rr, 'lr) env
     \<Rightarrow> 'ur Context \<times> ('w, 'rr, 'lr) env" where
  "Logout h P c s =
     (case Cookie_of c ''session-id'' of
        Inl e \<Rightarrow>
          (if e = ErrNoCookie
           then (JSON StatusUnauthorized (JRestError (NewUnauthorizedError (CauseErr e))) c,
                 LogResponseError e s)
           else (JSON StatusInternalServerError (JRestError (NewInternalServerError (CauseErr e))) c,
                 LogResponseError e s))
      | Inr cookie \<Rightarrow>
          (case invoke (CallDeleteByID (Value cookie))
                  (uc_DeleteByID (sessUC h) (Value cookie)) s of
             (Some e, s1) \<Rightarrow> (JSON_ErrorResponse P e c, LogResponseError e s1)
           | (None, s1) \<Rightarrow>
               (NoContent StatusOK (DeleteSessionCookie P (Session_Name (cfg h)) c), s1)))"

text \<open>\<^verbatim>\<open>Update\<close>: the id comes from the path; the body is read into the user.\<close>

definition Update ::
  "('w, 'rr, 'lr) authHandlers \<Rightarrow> ('ur, 'rr, 'lr) pkg \<Rightarrow> 'ur Context \<Rightarrow> ('w, 'rr, 'lr) env
     \<Rightarrow> 'ur Context \<times> ('w, 'rr, 'lr) env" where
  "Update h P c s =
     (case Atoi (Param c ''user_id'') of
        Inl e \<Rightarrow> (JSON_ErrorResponse P e c, LogResponseError e s)
      | Inr uID \<Rightarrow>
          (case ReadUser P c (User_zero\<lparr>ID := uID\<rparr>) of
             Inl e \<Rightarrow> (JSON_ErrorResponse P e c, LogResponseError e s)
           | Inr user \<Rightarrow>
               (case invoke (CallUpdate user) (uc_Update (authUC h) user) s of
                  (Inl e, s1) \<Rightarrow> (JSON_ErrorResponse P e c, LogResponseError e s1)
                | (Inr updatedUser, s1) \<Rightarrow> (JSON StatusOK (JUser updatedUser) c, s1))))"

definition GetUserByID ::
  "('w, 'rr, 'lr) authHandlers \<Rightarrow> ('ur, 'rr, 'lr) pkg \<Rightarrow> 'ur Context \<Rightarrow> ('w, 'rr, 'lr) env
     \<Rightarrow> 'ur Context \<times> ('w, 'rr, 'lr) env" where
  "GetUserByID h P c s =
     (case Atoi (Param c ''user_id'') of
        Inl e \<Rightarrow> (JSON_ErrorResponse P e c, LogResponseError e s)
      | Inr uID \<Rightarrow>
          (case invoke (CallGetByID uID) (uc_GetByID (authUC h) uID) s of
             (Inl e, s1) \<Rightarrow> (JSON_ErrorResponse P e c, LogResponseError e s1)
           | (Inr user, s1) \<Rightarrow> (JSON StatusOK (JUser user) c, s1)))"

definition Delete ::
  "('w, 'rr, 'lr) authHandlers \<Rightarrow> ('ur, 'rr, 'lr) pkg \<Rightarrow> 'ur Context \<Rightarrow> ('w, 'rr, 'lr) env
     \<Rightarrow> 'ur Context \<times> ('w, 'rr, 'lr) env" where
  "Delete h P c s =
     (case Atoi (Param c ''user_id'') of
        Inl e \<Rightarrow> (JSON_ErrorResponse P e c, LogResponseError e s)
      | Inr uID \<Rightarrow>
          (case invoke (CallDelete uID) (uc_Delete (authUC h) uID) s of
             (Some e, s1) \<Rightarrow> (JSON_ErrorResponse P e c, LogResponseError e s1)
           | (None, s1) \<Rightarrow> (NoContent StatusOK c, s1)))"

definition FindByName ::
  "('w, 'rr, 'lr) authHandlers \<Rightarrow> ('ur, 'rr, 'lr) pkg \<Rightarrow> 'ur Context \<Rightarrow> ('w, 'rr, 'lr) env
     \<Rightarrow> 'ur Context \<times> ('w, 'rr, 'lr) env" where
  "FindByName h P c s =
     (if QueryParam c ''name'' = []
      then (JSON StatusBadRequest (JRestError (NewBadRequestError (CauseStr ''name is required''))) c,
            LogResponseError (RestErr (NewBadRequestError (CauseStr ''name is required''))) s)
      else case GetPaginationFromCtx P c of
             Inl e \<Rightarrow> (JSON_ErrorResponse P e c, LogResponseError e s)
           | Inr paginationQuery \<Rightarrow>
               (case invoke (CallFindByName (QueryParam c ''name'') paginationQuery)
                       (uc_FindByName (authUC h) (QueryParam c ''name'') paginationQuery) s of
                  (Inl e, s1) \<Rightarrow> (JSON_ErrorResponse P e c, LogResponseError e s1)
                | (Inr response, s1) \<Rightarrow> (JSON StatusOK (JUsersList response) c, s1)))"

text \<open>
  \<^verbatim>\<open>GetMe\<close>: the type assertion \<^verbatim>\<open>c.Get("user").(*models.UserWithRole)\<close> holds when
  the store has a value of that type under \<^verbatim>\<open>user\<close>.
\<close>

definition GetMe ::
  "('w, 'rr, 'lr) authHandlers \<Rightarrow> 'ur Context \<Rightarrow> ('w, 'rr, 'lr) env
     \<Rightarrow> 'ur Context \<times> ('w, 'rr, 'lr) env" where
  "GetMe h c s =
     (case Store c ''user'' of
        Some (VUserWithRole user) \<Rightarrow> (JSON StatusOK (JUserWithRole user) c, s)
      | _ \<Rightarrow> ErrResponseWithLog (NewUnauthorizedError (CauseErr Unauthorized)) c
               (LogResponseError (RestErr (NewUnauthorizedError (CauseErr Unauthorized))) s))"

definition GetCSRFToken ::
  "('w, 'rr, 'lr) authHandlers \<Rightarrow> ('ur, 'rr, 'lr) pkg \<Rightarrow> 'ur Context \<Rightarrow> ('w, 'rr, 'lr) env
     \<Rightarrow> 'ur Context \<times> ('w, 'rr, 'lr) env" where
  "GetCSRFToken h P c s =
     (case Store c ''sid'' of
        Some (VString sid) \<Rightarrow>
          (let token = MakeToken P sid
           in (NoContent StatusOK
                 (HeaderSet ''Access-Control-Expose-Headers'' (CSRFHeader P)
                    (HeaderSet (CSRFHeader P) token c)), s))
      | _ \<Rightarrow> ErrResponseWithLog (NewUnauthorizedError (CauseErr Unauthorized)) c
               (LogResponseError (RestErr (NewUnauthorizedError (CauseErr Unauthorized))) s))"

section \<open>The Sanitize middleware\<close>

text \<open>
  \<^verbatim>\<open>Sanitize\<close> reads the whole request body, which leaves the body stream empty,
  sanitises it with \<^verbatim>\<open>sanitize.SanitizeJSON\<close> (a parameter), stores the result
  under \<^verbatim>\<open>body\<close> and runs the next handler. On either failure it answers 400
  without a body.
\<close>

definition Sanitize ::
  "(string \<Rightarrow> err + string) \<Rightarrow> ('ur Context \<Rightarrow> 'st \<Rightarrow> 'ur Context \<times> 'st)
     \<Rightarrow> 'ur Context \<Rightarrow> 'st \<Rightarrow> 'ur Context \<times> 'st" where
  "Sanitize SanitizeJSON next ctx s =
     (case Body (Req ctx) of
        Inl e \<Rightarrow> (NoContent StatusBadRequest ctx, s)
      | Inr body \<Rightarrow>
          (let ctx1 = ctx\<lparr>Req := (Req ctx)\<lparr>Body := Inr []\<rparr>\<rparr>
           in case SanitizeJSON body of
                Inl e \<Rightarrow> (NoContent StatusBadRequest ctx1, s)
              | Inr sanBody \<Rightarrow> next (ctx1\<lparr>Store := (Store ctx1)(''body'' \<mapsto> VBytes sanBody)\<rparr>) s))"

section \<open>The pagination envelope\<close>

text \<open>
  Modelled from the spec: the User Directory operations \<^verbatim>\<open>List\<close> and \<^verbatim>\<open>FindByName\<close>
  and the helpers that fill \<^verbatim>\<open>models.UsersList\<close> are in the repository layer, which
  is missing. The spec gives the envelope: \<open>total_pages = ceil(total_count / size)\<close>,
  \<open>has_more = page < total_pages\<close>; pages are 1-based, page and size must be at least
  1 (a ValidationError otherwise), and a page holds the users at positions
  \<open>(page - 1) * size\<close> up to \<open>page * size\<close> of the ordered directory.
\<close>

definition GetTotalPages :: "int \<Rightarrow> int \<Rightarrow> int" where
  "GetTotalPages totalCount pageSize = \<lceil>real_of_int totalCount / real_of_int pageSize\<rceil>"

definition GetHasMore :: "int \<Rightarrow> int \<Rightarrow> bool" where
  "GetHasMore currentPage totalPages = (currentPage < totalPages)"

definition UsersPage :: "PaginationQuery \<Rightarrow> User list \<Rightarrow> err + UsersList" where
  "UsersPage q us =
     (if Page q < 1 \<or> Size q < 1
      then Inl (RestErr (NewBadRequestError (CauseStr ''invalid pagination'')))
      else Inr \<lparr> total_count = int (length us),
                 total_pages = GetTotalPages (int (length us)) (Size q),
                 page = Page q,
                 size = Size q,
                 has_more = GetHasMore (Page q) (GetTotalPages (int (length us)) (Size q)),
                 users = take (nat (Size q)) (drop (nat ((Page q - 1) * Size q)) us) \<rparr>)"

text \<open>
  Modelled from the spec: \<^verbatim>\<open>List\<close> pages the whole directory, \<^verbatim>\<open>FindByName\<close> the users
  whose name matches; the match policy is open in the spec and is a parameter.
\<close>

definition Directory_List :: "PaginationQuery \<Rightarrow> User list \<Rightarrow> err + UsersList" where
  "Directory_List q us = UsersPage q us"

definition Directory_FindByName ::
  "(string \<Rightarrow> User \<Rightarrow> bool) \<Rightarrow> string \<Rightarrow> PaginationQuery \<Rightarrow> User list \<Rightarrow> err + UsersList" where
  "Directory_FindByName matches name q us = UsersPage q (filter (matches name) us)"

section \<open>An in-memory instance\<close>

text \<open>
  Concrete collaborators on which the handlers can be run: the stores are a list of
  users and a list of sessions (session id, user id); a register request is the user
  to create, a login request an email and a password; the current user in the context
  is a user and a role.
\<close>

type_synonym mem = "User list \<times> (string \<times> int) list"

definition mem_authUC :: "(mem, User, string \<times> string) UseCase" where
  "mem_authUC = \<lparr>
     uc_Register = (\<lambda>u w. if find (\<lambda>v. first_name v = first_name u) (fst w) \<noteq> None
                           then (Inl (RestErr \<lparr> ErrError = ''Conflict'', ErrStatus = 409 \<rparr>), w)
                           else let u' = u\<lparr>ID := int (length (fst w)) + 1\<rparr>
                                in (Inr \<lparr> User = u', Token = [] \<rparr>, (fst w @ [u'], snd w))),
     uc_Login = (\<lambda>l w. case find (\<lambda>u. email u = fst l \<and> password u = snd l) (fst w) of
                          None \<Rightarrow> (Inl (RestErr (NewUnauthorizedError (CauseStr ''login''))), w)
                        | Some u \<Rightarrow> (Inr \<lparr> User = u, Token = [] \<rparr>, w)),
     uc_Update = (\<lambda>u w. (Inr u, (map (\<lambda>v. if ID v = ID u then u else v) (fst w), snd w))),
     uc_Delete = (\<lambda>i w. (None, (filter (\<lambda>u. ID u \<noteq> i) (fst w), filter (\<lambda>p. snd p \<noteq> i) (snd w)))),
     uc_GetByID = (\<lambda>i w. case find (\<lambda>u. ID u = i) (fst w) of
                            None \<Rightarrow> (Inl (Err ''not found''), w)
                          | Some u \<Rightarrow> (Inr u, w)),
     uc_FindByName = (\<lambda>n q w. (Directory_FindByName (\<lambda>m u. first_name u = m) n q (fst w), w)) \<rparr>"

text \<open>A session store that works, and one whose backend is down.\<close>

definition mem_sessUC :: "mem UCSession" where
  "mem_sessUC = \<lparr>
     uc_CreateSession = (\<lambda>sess ttl w. (Inr ''sid-1'', (fst w, snd w @ [(''sid-1'', UserID sess)]))),
     uc_DeleteByID = (\<lambda>sid w. (None, (fst w, filter (\<lambda>p. fst p \<noteq> sid) (snd w)))) \<rparr>"

definition down_sessUC :: "mem UCSession" where
  "down_sessUC = \<lparr>
     uc_CreateSession = (\<lambda>sess ttl w. (Inl (Err ''cache down''), w)),
     uc_DeleteByID = (\<lambda>sid w. (Some (Err ''cache down''), w)) \<rparr>"

definition mem_cfg :: Config where
  "mem_cfg = \<lparr> Session_Name = ''session-id'', Session_Expire = 3600 \<rparr>"

definition mem_h :: "(mem, User, string \<times> string) authHandlers" where
  "mem_h = \<lparr> cfg = mem_cfg, authUC = mem_authUC, sessUC = mem_sessUC \<rparr>"

definition down_h :: "(mem, User, string \<times> string) authHandlers" where
  "down_h = \<lparr> cfg = mem_cfg, authUC = mem_authUC, sessUC = down_sessUC \<rparr>"

text \<open>The same handlers under a configuration that names no session cookie.\<close>

definition noname_h :: "(mem, User, string \<times> string) authHandlers" where
  "noname_h = \<lparr> cfg = \<lparr> Session_Name = [], Session_Expire = 3600 \<rparr>,
                authUC = mem_authUC, sessUC = mem_sessUC \<rparr>"

definition mem_pkg :: "(User \<times> string, User, string \<times> string) pkg" where
  "mem_pkg = \<lparr>
     ReadRegister = (\<lambda>c. case Store c ''body'' of
                            Some (VBytes b) \<Rightarrow> Inr (User_zero\<lparr>first_name := b, password := ''secret1''\<rparr>)
                          | _ \<Rightarrow> Inl (Err ''no body'')),
     ReadLogin = (\<lambda>c. case Store c ''body'' of
                         Some (VBytes b) \<Rightarrow> Inr (b, ''secret1'')
                       | _ \<Rightarrow> Inl (Err ''no body'')),
     ReadUser = (\<lambda>c u. case Store c ''body'' of
                          Some (VBytes b) \<Rightarrow> Inr (u\<lparr>first_name := b\<rparr>)
                        | _ \<Rightarrow> Inl (Err ''no body'')),
     ErrorResponse = (\<lambda>e. case e of
                             RestErr r \<Rightarrow> (ErrStatus r, r)
                           | NumError f n k \<Rightarrow> (400, NewBadRequestError (CauseErr e))
                           | _ \<Rightarrow> (500, NewInternalServerError (CauseErr e))),
     CreateSessionCookie =
       (\<lambda>cf sid. Some \<lparr> Name = Session_Name cf, Value = sid, MaxAge = Session_Expire cf \<rparr>),
     DeleteSessionCookie = (\<lambda>n c. SetCookie (Some \<lparr> Name = n, Value = [], MaxAge = - 1 \<rparr>) c),
     GetPaginationFromCtx = (\<lambda>c. Inr \<lparr> Size = 10, Page = 1, OrderBy = [] \<rparr>),
     MakeToken = (\<lambda>sid. rev sid),
     CSRFHeader = ''X-CSRF-Token'' \<rparr>"

text \<open>A fresh context for a request, and an environment over given stores.\<close>

definition mem_ctx :: "Request \<Rightarrow> (string \<rightharpoonup> (User \<times> string) ctx_val) \<Rightarrow> (User \<times> string) Context" where
  "mem_ctx r st = \<lparr> Req = r, Store = st,
      Resp = \<lparr> Status = None, RespBody = None, Header = [], SetCookies = [] \<rparr> \<rparr>"

definition mem_req :: "Cookie list \<Rightarrow> (string \<times> string) list \<Rightarrow> (string \<times> string) list \<Rightarrow> Request" where
  "mem_req cks ps qs = \<lparr> ReqCookies = cks, Params = map_of ps, Query = map_of qs, Body = Inr [] \<rparr>"

definition mem_env :: "mem \<Rightarrow> (mem, User, string \<times> string) env" where
  "mem_env w = \<lparr> world = w, calls = [], logged = [] \<rparr>"

text \<open>A user named \<open>n\<close>.\<close>

definition mem_user :: "int \<Rightarrow> string \<Rightarrow> User" where
  "mem_user i n = User_zero\<lparr>ID := i, first_name := n\<rparr>"

text \<open>
  For the middleware: a context whose request body reads as \<open>b\<close>, a sanitiser that
  accepts the bodies that open and close with a brace, and a next handler that
  answers 200 and counts how often it has run.
\<close>

definition mem_body_ctx :: "err + string \<Rightarrow> (User \<times> string) Context" where
  "mem_body_ctx b = mem_ctx ((mem_req [] [] [])\<lparr>Body := b\<rparr>) Map.empty"

definition mem_SanitizeJSON :: "string \<Rightarrow> err + string" where
  "mem_SanitizeJSON b =
     (if b \<noteq> [] \<and> hd b = CHR ''{'' \<and> last b = CHR ''}'' then Inr b else Inl (Err ''invalid json''))"

definition count_next :: "(User \<times> string) Context \<Rightarrow> nat \<Rightarrow> (User \<times> string) Context \<times> nat" where
  "count_next c n = (NoContent 200 c, Suc n)"

section \<open>Decimal integers\<close>

text \<open>
  What the spec calls a decimal integer, in its own words and apart from \<^verbatim>\<open>Atoi\<close>:
  an optional sign followed by one or more decimal digits.
\<close>

definition is_decimal :: "string \<Rightarrow> bool" where
  "is_decimal s =
     (case s of
        [] \<Rightarrow> False
      | ch # cs \<Rightarrow> if ch = CHR ''-'' \<or> ch = CHR ''+'' then cs \<noteq> [] \<and> list_all isDigit cs
                 else list_all isDigit s)"

section \<open>Auxiliary facts\<close>

lemma digits_val_None: "\<not> list_all isDigit cs \<Longrightarrow> digits_val cs n = None"
  by (induction cs arbitrary: n) auto

lemma ParseUint_loop_not_digits:
  "\<not> list_all isDigit cs \<Longrightarrow> \<exists>k. ParseUint_loop cs n = Inl k"
  by (induction cs arbitrary: n) auto

lemma ParseInt_not_digits:
  assumes "ds = (if hd s = CHR ''+'' \<or> hd s = CHR ''-'' then tl s else s)"
      and "ds = [] \<or> \<not> list_all isDigit ds"
  shows "\<exists>k. ParseInt s = Inl (NumError ''ParseInt'' s k)"
proof (cases "s = []")
  case True
  then show ?thesis by (simp add: ParseInt_def)
next
  case False
  have "\<exists>k. ParseUint ds = Inl k"
  proof (cases "ds = []")
    case True
    then show ?thesis by (simp add: ParseUint_def)
  next
    case False
    with assms(2) have "\<not> list_all isDigit ds" by simp
    from ParseUint_loop_not_digits [OF this, of 0] False show ?thesis
      by (simp add: ParseUint_def)
  qed
  then obtain k where k: "ParseUint ds = Inl k" ..
  show ?thesis
  proof (cases k)
    case ErrSyntax
    with k False assms(1) show ?thesis by (simp add: ParseInt_def Let_def)
  next
    case ErrRange
    with k False assms(1) show ?thesis by (simp add: ParseInt_def Let_def)
  qed
qed

lemma Atoi_not_decimal:
  assumes "\<not> is_decimal s"
  shows "\<exists>k. Atoi s = Inl (NumError ''Atoi'' s k)"
proof -
  define ds where "ds = (if hd s = CHR ''+'' \<or> hd s = CHR ''-'' then tl s else s)"
  have bad: "ds = [] \<or> \<not> list_all isDigit ds"
    using assms by (cases s) (auto simp: is_decimal_def ds_def split: if_splits)
  show ?thesis
  proof (cases "0 < length s \<and> length s < 19")
    case True
    have ds': "(if hd s = CHR ''-'' \<or> hd s = CHR ''+'' then tl s else s) = ds"
      by (auto simp: ds_def)
    from bad True show ?thesis
      by (auto simp: Atoi_def Let_def ds' digits_val_None)
  next
    case False
    from ParseInt_not_digits [OF ds_def bad] obtain k
      where k: "ParseInt s = Inl (NumError ''ParseInt'' s k)" ..
    have "Atoi s = (case ParseInt s of
           Inl (NumError f num k) \<Rightarrow> Inl (NumError ''Atoi'' num k)
         | r \<Rightarrow> r)"
      unfolding Atoi_def using False by (simp only: if_False)
    then show ?thesis by (simp add: k)
  qed
qed

lemma map_of_filter_key: "map_of (filter (\<lambda>kv. fst kv \<noteq> k) xs) k' = (if k' = k then None else map_of xs k')"
  by (induction xs) auto

lemma HeaderGet_HeaderSet_same: "HeaderGet (HeaderSet k v c) k = Some v"
  by (simp add: HeaderGet_def HeaderSet_def map_add_def map_of_filter_key)

lemma HeaderGet_HeaderSet_other:
  "CanonicalMIMEHeaderKey k' \<noteq> CanonicalMIMEHeaderKey k \<Longrightarrow> HeaderGet (HeaderSet k v c) k' = HeaderGet c k'"
  by (simp add: HeaderGet_def HeaderSet_def map_add_def map_of_filter_key split: option.splits)

lemma HeaderGet_NoContent: "HeaderGet (NoContent code c) k = HeaderGet c k"
  by (simp add: HeaderGet_def NoContent_def)

lemma canon_ACEH: "CanonicalMIMEHeaderKey ''Access-Control-Expose-Headers'' = ''Access-Control-Expose-Headers''"
  by (simp add: CanonicalMIMEHeaderKey_def isTokenByte_def toUpper_def toLower_def)

lemma canon_mem_header: "CanonicalMIMEHeaderKey ''X-CSRF-Token'' = ''X-Csrf-Token''"
  by (simp add: CanonicalMIMEHeaderKey_def isTokenByte_def toUpper_def toLower_def)

lemma ceil_div_int:
  assumes b: "0 < (b::int)"
  shows "\<lceil>real_of_int a / real_of_int b\<rceil> = (a + b - 1) div b"
proof -
  have c: "\<lceil>real_of_int a / real_of_int b\<rceil> = - ((- a) div b)"
    by (simp add: ceiling_divide_eq_div)
  have m: "0 \<le> a mod b" "a mod b < b"
    using b by simp_all
  have d: "a = b * (a div b) + a mod b"
    by simp
  show ?thesis
  proof (cases "a mod b = 0")
    case True
    have "a + b - 1 = b * (a div b) + (b - 1)"
      using d True by simp
    then have "(a + b - 1) div b = a div b"
      using b by (intro int_div_pos_eq [where r = "b - 1"]) simp_all
    moreover have "- ((- a) div b) = a div b"
      using b True by (simp add: zdiv_zminus1_eq_if)
    ultimately show ?thesis using c by simp
  next
    case False
    have "a + b - 1 = b * (a div b + 1) + (a mod b - 1)"
      using d by (simp add: algebra_simps)
    then have "(a + b - 1) div b = a div b + 1"
      using b m False by (intro int_div_pos_eq [where r = "a mod b - 1"]) simp_all
    moreover have "- ((- a) div b) = a div b + 1"
      using b False by (simp add: zdiv_zminus1_eq_if)
    ultimately show ?thesis using c by simp
  qed
qed

lemma less_ceil_iff:
  assumes b: "0 < (b::int)"
  shows "(p < \<lceil>real_of_int a / real_of_int b\<rceil>) = (p * b < a)"
proof -
  have "(p < \<lceil>real_of_int a / real_of_int b\<rceil>) = (real_of_int p < real_of_int a / real_of_int b)"
    by (simp add: less_ceiling_iff)
  also have "\<dots> = (real_of_int p * real_of_int b < real_of_int a)"
    using b by (simp add: pos_less_divide_eq)
  also have "\<dots> = (p * b < a)"
    by (simp only: of_int_mult [symmetric] of_int_less_iff)
  finally show ?thesis .
qed

lemma len_take_drop:
  assumes "0 < sz" "0 \<le> m"
  shows "int (length (take (nat sz) (drop (nat m) us))) = max 0 (min sz (int (length us) - m))"
  using assms by (simp add: min_def max_def) linarith

lemma len_page:
  assumes "0 < sz" "1 \<le> p"
  shows "int (length (take (nat sz) (drop (nat ((p - 1) * sz)) us)))
           = max 0 (min sz (int (length us) - (p - 1) * sz))"
  using assms by (intro len_take_drop) simp_all

lemma GetTotalPages_int: "0 < b \<Longrightarrow> GetTotalPages a b = (a + b - 1) div b"
  by (simp add: GetTotalPages_def ceil_div_int)

lemma mem_find_ann:
  "uc_FindByName (authUC mem_h) ''ann'' \<lparr> Size = 10, Page = 1, OrderBy = [] \<rparr>
      ([mem_user 1 ''ann'', mem_user 2 ''bob''], [])
   = (Inr \<lparr> total_count = 1, total_pages = 1, page = 1, size = 10, has_more = False,
            users = [mem_user 1 ''ann''] \<rparr>, ([mem_user 1 ''ann'', mem_user 2 ''bob''], []))"
  by (simp add: mem_h_def mem_authUC_def Directory_FindByName_def UsersPage_def GetTotalPages_int
      GetHasMore_def mem_user_def)

lemma UsersPage_envelope:
  assumes "UsersPage q us = Inr r"
  shows "total_pages r = \<lceil>real_of_int (total_count r) / real_of_int (size r)\<rceil>"
    and "has_more r = (page r < total_pages r)"
    and "total_pages r = (total_count r + size r - 1) div size r"
    and "has_more r = (page r * size r < total_count r)"
    and "int (length (users r)) = max 0 (min (size r) (total_count r - (page r - 1) * size r))"
proof -
  from assms have v: "1 \<le> Page q" "1 \<le> Size q"
    by (auto simp: UsersPage_def split: if_splits)
  from assms v have r: "r = \<lparr> total_count = int (length us),
                 total_pages = GetTotalPages (int (length us)) (Size q),
                 page = Page q, size = Size q,
                 has_more = GetHasMore (Page q) (GetTotalPages (int (length us)) (Size q)),
                 users = take (nat (Size q)) (drop (nat ((Page q - 1) * Size q)) us) \<rparr>"
    by (auto simp: UsersPage_def split: if_splits)
  have f: "total_count r = int (length us)" "page r = Page q" "size r = Size q"
    "total_pages r = GetTotalPages (total_count r) (size r)"
    "has_more r = GetHasMore (page r) (total_pages r)"
    "users r = take (nat (size r)) (drop (nat ((page r - 1) * size r)) us)"
    by (simp_all add: r)
  have sz: "0 < size r" and pg: "1 \<le> page r"
    using v f by simp_all
  have c1: "total_pages r = \<lceil>real_of_int (total_count r) / real_of_int (size r)\<rceil>"
    using f(4) by (simp only: GetTotalPages_def)
  have c2: "has_more r = (page r < total_pages r)"
    using f(5) by (simp only: GetHasMore_def)
  have c3: "total_pages r = (total_count r + size r - 1) div size r"
    using c1 ceil_div_int [OF sz, of "total_count r"] by (simp only:)
  have c4: "has_more r = (page r * size r < total_count r)"
    using c2 c1 less_ceil_iff [OF sz, of "page r" "total_count r"] by (simp only:)
  have c5: "int (length (users r)) = max 0 (min (size r) (total_count r - (page r - 1) * size r))"
    using len_page [OF sz pg, of us] f(1) f(6) by (simp only:)
  show "total_pages r = \<lceil>real_of_int (total_count r) / real_of_int (size r)\<rceil>"
    by (rule c1)
  show "has_more r = (page r < total_pages r)"
    by (rule c2)
  show "total_pages r = (total_count r + size r - 1) div size r"
    by (rule c3)
  show "has_more r = (page r * size r < total_count r)"
    by (rule c4)
  show "int (length (users r)) = max 0 (min (size r) (total_count r - (page r - 1) * size r))"
    by (rule c5)
qed

lemma SetCookies_JSON: "SetCookies (Resp (JSON code v c)) = SetCookies (Resp c)"
  by (simp add: JSON_def)

lemma SetCookies_SetCookie:
  "SetCookies (Resp (SetCookie cookie c)) =
     SetCookies (Resp c) @
       (case cookie of None \<Rightarrow> [] | Some ck \<Rightarrow> if isCookieNameValid (Name ck) then [ck] else [])"
  by (simp add: SetCookie_def split: option.splits)

lemma RespBody_SetCookie:
  "RespBody (Resp (SetCookie cookie c)) = RespBody (Resp c)"
  "Status (Resp (SetCookie cookie c)) = Status (Resp c)"
  by (simp_all add: SetCookie_def split: option.splits)

lemma RespBody_JSON: "RespBody (Resp (JSON code v c)) = Some v" "Status (Resp (JSON code v c)) = Some code"
  by (simp_all add: JSON_def)

lemma Register_fst_cases:
  "fst (Register h P c s) =
     (case ReadRegister P c of
        Inl e \<Rightarrow> JSON_ErrorResponse P e c
      | Inr user \<Rightarrow>
          (case fst (uc_Register (authUC h) user (world s)) of
             Inl e \<Rightarrow> JSON_ErrorResponse P e c
           | Inr cu \<Rightarrow>
               (case fst (uc_CreateSession (sessUC h) \<lparr> SessionID = [], UserID = ID (User cu) \<rparr>
                            (Session_Expire (cfg h)) (snd (uc_Register (authUC h) user (world s)))) of
                  Inl e \<Rightarrow> JSON_ErrorResponse P e c
                | Inr sid \<Rightarrow> JSON 201 (JUserWithToken cu) (SetCookie (CreateSessionCookie P (cfg h) sid) c))))"
  by (simp add: Register_def invoke_def StatusCreated_def Let_def split: sum.splits prod.splits)

lemma Login_fst_cases:
  "fst (Login h P c s) =
     (case ReadLogin P c of
        Inl e \<Rightarrow> JSON_ErrorResponse P e c
      | Inr login \<Rightarrow>
          (case fst (uc_Login (authUC h) login (world s)) of
             Inl e \<Rightarrow> JSON_ErrorResponse P e c
           | Inr cu \<Rightarrow>
               (case fst (uc_CreateSession (sessUC h) \<lparr> SessionID = [], UserID = ID (User cu) \<rparr>
                            (Session_Expire (cfg h)) (snd (uc_Login (authUC h) login (world s)))) of
                  Inl e \<Rightarrow> JSON_ErrorResponse P e c
                | Inr sid \<Rightarrow> JSON 200 (JUserWithToken cu) (SetCookie (CreateSessionCookie P (cfg h) sid) c))))"
  by (simp add: Login_def invoke_def StatusOK_def Let_def split: sum.splits prod.splits)

lemma SetCookies_ErrorResponse: "SetCookies (Resp (JSON_ErrorResponse P e c)) = SetCookies (Resp c)"
  "RespBody (Resp (JSON_ErrorResponse P e c)) = Some (JRestError (snd (ErrorResponse P e)))"
  by (simp_all add: JSON_ErrorResponse_def JSON_def)

section \<open>Register: a failed session creation\<close>

text \<open>
  C1. When \<^verbatim>\<open>Register\<close> has created the user and the session creation then fails,
  the handler answers with the error response of the session error, sets no cookie,
  and makes no further use-case call: the stores are left as the failed
  \<^verbatim>\<open>CreateSession\<close> left them, so the created user stays, with no rollback and no
  deletion.
\<close>

theorem Register_session_failure:
  assumes rd: "ReadRegister P c = Inr user"
      and reg: "uc_Register (authUC h) user (world s) = (Inr createdUser, w1)"
      and cs: "uc_CreateSession (sessUC h) \<lparr> SessionID = [], UserID = ID (User createdUser) \<rparr>
                 (Session_Expire (cfg h)) w1 = (Inl e, w2)"
  shows "Register h P c s =
           (JSON_ErrorResponse P e c,
            s\<lparr>world := w2,
              calls := calls s @ [CallRegister user,
                 CallCreateSession \<lparr> SessionID = [], UserID = ID (User createdUser) \<rparr> (Session_Expire (cfg h))],
              logged := logged s @ [e]\<rparr>)
         \<and> SetCookies (Resp (fst (Register h P c s))) = SetCookies (Resp c)
         \<and> Status (Resp (fst (Register h P c s))) = Some (fst (ErrorResponse P e))
         \<and> RespBody (Resp (fst (Register h P c s))) = Some (JRestError (snd (ErrorResponse P e)))
         \<and> world (snd (Register h P c s)) = w2"
  using rd reg cs
  by (simp add: Register_def invoke_def LogResponseError_def JSON_ErrorResponse_def JSON_def Let_def)

theorem Register_session_failure_witness:
  "ReadRegister mem_pkg (mem_ctx (mem_req [] [] []) [''body'' \<mapsto> VBytes ''ann'']) = Inr (User_zero\<lparr>first_name := ''ann'', password := ''secret1''\<rparr>)
   \<and> fst (world (snd (Register down_h mem_pkg (mem_ctx (mem_req [] [] []) [''body'' \<mapsto> VBytes ''ann'']) (mem_env ([], []))))) 
      = [User_zero\<lparr>ID := 1, first_name := ''ann'', password := ''secret1''\<rparr>]
   \<and> SetCookies (Resp (fst (Register down_h mem_pkg (mem_ctx (mem_req [] [] []) [''body'' \<mapsto> VBytes ''ann'']) (mem_env ([], []))))) = []
   \<and> Status (Resp (fst (Register down_h mem_pkg (mem_ctx (mem_req [] [] []) [''body'' \<mapsto> VBytes ''ann'']) (mem_env ([], []))))) = Some 500"
proof -
  let ?c = "mem_ctx (mem_req [] [] []) [''body'' \<mapsto> VBytes ''ann'']"
  let ?u = "User_zero\<lparr>first_name := ''ann'', password := ''secret1''\<rparr>"
  let ?cu = "\<lparr> User = ?u\<lparr>ID := 1\<rparr>, Token = [] \<rparr>"
  have rd: "ReadRegister mem_pkg ?c = Inr ?u"
    by (simp add: mem_pkg_def mem_ctx_def)
  have reg: "uc_Register (authUC down_h) ?u (world (mem_env ([], []))) = (Inr ?cu, ([?u\<lparr>ID := 1\<rparr>], []))"
    by (simp add: down_h_def mem_authUC_def mem_env_def Let_def)
  have cs: "uc_CreateSession (sessUC down_h) \<lparr> SessionID = [], UserID = ID (User ?cu) \<rparr>
                 (Session_Expire (cfg down_h)) ([?u\<lparr>ID := 1\<rparr>], []) = (Inl (Err ''cache down''), ([?u\<lparr>ID := 1\<rparr>], []))"
    by (simp add: down_h_def down_sessUC_def)
  show ?thesis
    using rd Register_session_failure [OF rd reg cs]
    by (simp add: mem_ctx_def mem_pkg_def User_zero_def JSON_ErrorResponse_def JSON_def NewInternalServerError_def)
qed

section \<open>Logout\<close>

text \<open>
  C2 (amended). Without a request cookie named \<^verbatim>\<open>session-id\<close>, \<^verbatim>\<open>Logout\<close> answers 401
  with an Unauthorized body and calls nothing. With the cookie it calls \<^verbatim>\<open>DeleteByID\<close>
  with the cookie's value; when that succeeds it deletes the cookie named in the
  configuration and answers 200 without a body; when that fails it answers with the
  error response of the failure and leaves the cookie alone.
\<close>

theorem Logout_outcomes:
  "((\<forall>ck \<in> set (ReqCookies (Req c)). Name ck \<noteq> ''session-id'') \<longrightarrow>
      Logout h P c s =
        (JSON 401 (JRestError (NewUnauthorizedError (CauseErr ErrNoCookie))) c,
         s\<lparr>logged := logged s @ [ErrNoCookie]\<rparr>)
      \<and> calls (snd (Logout h P c s)) = calls s \<and> world (snd (Logout h P c s)) = world s)
   \<and> (find (\<lambda>ck. Name ck = ''session-id'') (ReqCookies (Req c)) = Some cookie
        \<and> uc_DeleteByID (sessUC h) (Value cookie) (world s) = (None, w1) \<longrightarrow>
      Logout h P c s =
        (NoContent 200 (DeleteSessionCookie P (Session_Name (cfg h)) c),
         s\<lparr>world := w1, calls := calls s @ [CallDeleteByID (Value cookie)]\<rparr>))
   \<and> (find (\<lambda>ck. Name ck = ''session-id'') (ReqCookies (Req c)) = Some cookie
        \<and> uc_DeleteByID (sessUC h) (Value cookie) (world s) = (Some e, w1) \<longrightarrow>
      Logout h P c s =
        (JSON_ErrorResponse P e c,
         s\<lparr>world := w1, calls := calls s @ [CallDeleteByID (Value cookie)],
           logged := logged s @ [e]\<rparr>))"
proof (intro conjI impI)
  assume a: "\<forall>ck \<in> set (ReqCookies (Req c)). Name ck \<noteq> ''session-id''"
  then have f: "find (\<lambda>ck. Name ck = ''session-id'') (ReqCookies (Req c)) = None"
    by (simp add: find_None_iff)
  show "Logout h P c s =
        (JSON 401 (JRestError (NewUnauthorizedError (CauseErr ErrNoCookie))) c,
         s\<lparr>logged := logged s @ [ErrNoCookie]\<rparr>)"
    by (simp add: Logout_def Cookie_of_def f LogResponseError_def StatusUnauthorized_def)
  then show "calls (snd (Logout h P c s)) = calls s" "world (snd (Logout h P c s)) = world s"
    by simp_all
next
  assume "find (\<lambda>ck. Name ck = ''session-id'') (ReqCookies (Req c)) = Some cookie
        \<and> uc_DeleteByID (sessUC h) (Value cookie) (world s) = (None, w1)"
  then show "Logout h P c s =
        (NoContent 200 (DeleteSessionCookie P (Session_Name (cfg h)) c),
         s\<lparr>world := w1, calls := calls s @ [CallDeleteByID (Value cookie)]\<rparr>)"
    by (simp add: Logout_def Cookie_of_def invoke_def StatusOK_def)
next
  assume "find (\<lambda>ck. Name ck = ''session-id'') (ReqCookies (Req c)) = Some cookie
        \<and> uc_DeleteByID (sessUC h) (Value cookie) (world s) = (Some e, w1)"
  then show "Logout h P c s =
        (JSON_ErrorResponse P e c,
         s\<lparr>world := w1, calls := calls s @ [CallDeleteByID (Value cookie)],
           logged := logged s @ [e]\<rparr>)"
    by (simp add: Logout_def Cookie_of_def invoke_def LogResponseError_def)
qed

theorem Logout_outcomes_witness:
  "Cookie_of (mem_ctx (mem_req [\<lparr> Name = ''lang'', Value = ''en'', MaxAge = 0 \<rparr>] [] []) Map.empty)
       ''session-id'' = Inl ErrNoCookie
   \<and> Status (Resp (fst (Logout mem_h mem_pkg
        (mem_ctx (mem_req [\<lparr> Name = ''lang'', Value = ''en'', MaxAge = 0 \<rparr>] [] []) Map.empty)
        (mem_env ([], [(''sid-1'', 1)]))))) = Some 401
   \<and> snd (Logout mem_h mem_pkg
        (mem_ctx (mem_req [\<lparr> Name = ''lang'', Value = ''en'', MaxAge = 0 \<rparr>] [] []) Map.empty)
        (mem_env ([], [(''sid-1'', 1)])))
      = \<lparr> world = ([], [(''sid-1'', 1)]), calls = [], logged = [ErrNoCookie] \<rparr>
   \<and> Logout mem_h mem_pkg
        (mem_ctx (mem_req [\<lparr> Name = ''session-id'', Value = ''sid-1'', MaxAge = 0 \<rparr>] [] []) Map.empty)
        (mem_env ([], [(''sid-1'', 1)]))
      = (\<lparr> Req = mem_req [\<lparr> Name = ''session-id'', Value = ''sid-1'', MaxAge = 0 \<rparr>] [] [],
            Store = Map.empty,
            Resp = \<lparr> Status = Some 200, RespBody = None, Header = [],
                     SetCookies = [\<lparr> Name = ''session-id'', Value = [], MaxAge = - 1 \<rparr>] \<rparr> \<rparr>,
         \<lparr> world = ([], []), calls = [CallDeleteByID ''sid-1''], logged = [] \<rparr>)
   \<and> Logout down_h mem_pkg
        (mem_ctx (mem_req [\<lparr> Name = ''session-id'', Value = ''sid-1'', MaxAge = 0 \<rparr>] [] []) Map.empty)
        (mem_env ([], [(''sid-1'', 1)]))
      = (JSON_ErrorResponse mem_pkg (Err ''cache down'')
           (mem_ctx (mem_req [\<lparr> Name = ''session-id'', Value = ''sid-1'', MaxAge = 0 \<rparr>] [] []) Map.empty),
         \<lparr> world = ([], [(''sid-1'', 1)]), calls = [CallDeleteByID ''sid-1''],
           logged = [Err ''cache down''] \<rparr>)"
  using
    Logout_outcomes [where c = "mem_ctx (mem_req [\<lparr> Name = ''lang'', Value = ''en'', MaxAge = 0 \<rparr>] [] []) Map.empty"
       and h = mem_h and P = mem_pkg and s = "mem_env ([], [(''sid-1'', 1)])"]
    Logout_outcomes [where c = "mem_ctx (mem_req [\<lparr> Name = ''session-id'', Value = ''sid-1'', MaxAge = 0 \<rparr>] [] []) Map.empty"
       and h = mem_h and P = mem_pkg and s = "mem_env ([], [(''sid-1'', 1)])"
       and cookie = "\<lparr> Name = ''session-id'', Value = ''sid-1'', MaxAge = 0 \<rparr>" and ?w1.0 = "([], [])"]
    Logout_outcomes [where c = "mem_ctx (mem_req [\<lparr> Name = ''session-id'', Value = ''sid-1'', MaxAge = 0 \<rparr>] [] []) Map.empty"
       and h = down_h and P = mem_pkg and s = "mem_env ([], [(''sid-1'', 1)])"
       and cookie = "\<lparr> Name = ''session-id'', Value = ''sid-1'', MaxAge = 0 \<rparr>"
       and ?w1.0 = "([], [(''sid-1'', 1)])" and e = "Err ''cache down''"]
  by (simp add: mem_ctx_def mem_req_def mem_env_def mem_h_def down_h_def mem_sessUC_def down_sessUC_def
      mem_cfg_def mem_pkg_def JSON_def NoContent_def SetCookie_def Cookie_of_def
      isCookieNameValid_def isTokenByte_def)

text \<open>
  C2 as first stated fails: a request that carries the cookie, with a session store
  whose backend is down, gets 500 with an error body, and no cookie is cleared.
\<close>

theorem Logout_delete_failure_counterexample:
  "Cookie_of (mem_ctx (mem_req [\<lparr> Name = ''session-id'', Value = ''sid-1'', MaxAge = 0 \<rparr>] [] []) Map.empty)
       ''session-id'' = Inr \<lparr> Name = ''session-id'', Value = ''sid-1'', MaxAge = 0 \<rparr>
   \<and> calls (snd (Logout down_h mem_pkg
        (mem_ctx (mem_req [\<lparr> Name = ''session-id'', Value = ''sid-1'', MaxAge = 0 \<rparr>] [] []) Map.empty)
        (mem_env ([], [(''sid-1'', 1)])))) = [CallDeleteByID ''sid-1'']
   \<and> Status (Resp (fst (Logout down_h mem_pkg
        (mem_ctx (mem_req [\<lparr> Name = ''session-id'', Value = ''sid-1'', MaxAge = 0 \<rparr>] [] []) Map.empty)
        (mem_env ([], [(''sid-1'', 1)]))))) = Some 500
   \<and> RespBody (Resp (fst (Logout down_h mem_pkg
        (mem_ctx (mem_req [\<lparr> Name = ''session-id'', Value = ''sid-1'', MaxAge = 0 \<rparr>] [] []) Map.empty)
        (mem_env ([], [(''sid-1'', 1)]))))) \<noteq> None
   \<and> SetCookies (Resp (fst (Logout down_h mem_pkg
        (mem_ctx (mem_req [\<lparr> Name = ''session-id'', Value = ''sid-1'', MaxAge = 0 \<rparr>] [] []) Map.empty)
        (mem_env ([], [(''sid-1'', 1)]))))) = []"
  by (simp add: Logout_def Cookie_of_def mem_ctx_def mem_req_def invoke_def down_h_def
      down_sessUC_def mem_env_def LogResponseError_def JSON_ErrorResponse_def JSON_def mem_pkg_def
      NewInternalServerError_def)

section \<open>GetMe\<close>

text \<open>
  C3. When the context holds no value of type \<^verbatim>\<open>*models.UserWithRole\<close> under \<^verbatim>\<open>user\<close>,
  \<^verbatim>\<open>GetMe\<close> fails with the Unauthorized error; when it holds one, \<^verbatim>\<open>GetMe\<close> answers 200
  with that user.
\<close>

theorem GetMe_outcomes:
  "((\<forall>user. Store c ''user'' \<noteq> Some (VUserWithRole user)) \<longrightarrow>
      GetMe h c s =
        (JSON 401 (JRestError (NewUnauthorizedError (CauseErr Unauthorized))) c,
         s\<lparr>logged := logged s @ [RestErr (NewUnauthorizedError (CauseErr Unauthorized)),
                                  RestErr (NewUnauthorizedError (CauseErr Unauthorized))]\<rparr>)
      \<and> Status (Resp (fst (GetMe h c s))) = Some 401
      \<and> RespBody (Resp (fst (GetMe h c s))) = Some (JRestError \<lparr> ErrError = ''Unauthorized'', ErrStatus = 401 \<rparr>))
   \<and> (Store c ''user'' = Some (VUserWithRole user) \<longrightarrow>
      GetMe h c s = (JSON 200 (JUserWithRole user) c, s)
      \<and> Status (Resp (fst (GetMe h c s))) = Some 200
      \<and> RespBody (Resp (fst (GetMe h c s))) = Some (JUserWithRole user))"
  by (auto simp: GetMe_def ErrResponseWithLog_def LogResponseError_def NewUnauthorizedError_def
      StatusOK_def JSON_def split: option.splits ctx_val.splits)

theorem GetMe_outcomes_witness:
  "(\<forall>user. Store (mem_ctx (mem_req [] [] []) [''user'' \<mapsto> VString ''ann'']) ''user'' \<noteq> Some (VUserWithRole user))
   \<and> Status (Resp (fst (GetMe mem_h (mem_ctx (mem_req [] [] []) [''user'' \<mapsto> VString ''ann''])
         (mem_env ([], []))))) = Some 401
   \<and> Store (mem_ctx (mem_req [] [] []) [''user'' \<mapsto> VUserWithRole (mem_user 7 ''ann'', ''admin'')]) ''user''
        = Some (VUserWithRole (mem_user 7 ''ann'', ''admin''))
   \<and> Status (Resp (fst (GetMe mem_h (mem_ctx (mem_req [] [] []) [''user'' \<mapsto> VUserWithRole (mem_user 7 ''ann'', ''admin'')])
         (mem_env ([], []))))) = Some 200
   \<and> RespBody (Resp (fst (GetMe mem_h (mem_ctx (mem_req [] [] []) [''user'' \<mapsto> VUserWithRole (mem_user 7 ''ann'', ''admin'')])
         (mem_env ([], []))))) = Some (JUserWithRole (mem_user 7 ''ann'', ''admin''))"
  using
    GetMe_outcomes [where c = "mem_ctx (mem_req [] [] []) [''user'' \<mapsto> VString ''ann'']"
      and h = mem_h and s = "mem_env ([], [])"]
    GetMe_outcomes [where c = "mem_ctx (mem_req [] [] []) [''user'' \<mapsto> VUserWithRole (mem_user 7 ''ann'', ''admin'')]"
      and h = mem_h and s = "mem_env ([], [])" and user = "(mem_user 7 ''ann'', ''admin'')"]
  by (simp add: mem_ctx_def JSON_def NewUnauthorizedError_def)

section \<open>GetCSRFToken\<close>

text \<open>
  C4. When the context holds a string under \<^verbatim>\<open>sid\<close>, \<^verbatim>\<open>GetCSRFToken\<close> answers 200 without
  a body, exposes the CSRF header through \<^verbatim>\<open>Access-Control-Expose-Headers\<close> and carries
  the token made from that session id in the CSRF header (whose name is not that of
  the expose header). When there is no such string it fails with 401 Unauthorized.
\<close>

theorem GetCSRFToken_outcomes:
  "(Store c ''sid'' = Some (VString sid) \<longrightarrow>
      GetCSRFToken h P c s =
        (NoContent 200 (HeaderSet ''Access-Control-Expose-Headers'' (CSRFHeader P)
                          (HeaderSet (CSRFHeader P) (MakeToken P sid) c)), s)
      \<and> Status (Resp (fst (GetCSRFToken h P c s))) = Some 200
      \<and> RespBody (Resp (fst (GetCSRFToken h P c s))) = None
      \<and> HeaderGet (fst (GetCSRFToken h P c s)) ''Access-Control-Expose-Headers'' = Some (CSRFHeader P)
      \<and> (CanonicalMIMEHeaderKey (CSRFHeader P) \<noteq> ''Access-Control-Expose-Headers'' \<longrightarrow>
           HeaderGet (fst (GetCSRFToken h P c s)) (CSRFHeader P) = Some (MakeToken P sid)))
   \<and> ((\<forall>sid. Store c ''sid'' \<noteq> Some (VString sid)) \<longrightarrow>
      fst (GetCSRFToken h P c s) = JSON 401 (JRestError (NewUnauthorizedError (CauseErr Unauthorized))) c
      \<and> Status (Resp (fst (GetCSRFToken h P c s))) = Some 401
      \<and> RespBody (Resp (fst (GetCSRFToken h P c s))) = Some (JRestError \<lparr> ErrError = ''Unauthorized'', ErrStatus = 401 \<rparr>)
      \<and> Header (Resp (fst (GetCSRFToken h P c s))) = Header (Resp c))"
proof (intro conjI impI)
  assume a: "Store c ''sid'' = Some (VString sid)"
  then show r: "GetCSRFToken h P c s =
        (NoContent 200 (HeaderSet ''Access-Control-Expose-Headers'' (CSRFHeader P)
                          (HeaderSet (CSRFHeader P) (MakeToken P sid) c)), s)"
    by (simp add: GetCSRFToken_def StatusOK_def)
  show "Status (Resp (fst (GetCSRFToken h P c s))) = Some 200"
    "RespBody (Resp (fst (GetCSRFToken h P c s))) = None"
    by (simp_all add: r NoContent_def)
  show "HeaderGet (fst (GetCSRFToken h P c s)) ''Access-Control-Expose-Headers'' = Some (CSRFHeader P)"
    by (simp add: r HeaderGet_NoContent HeaderGet_HeaderSet_same)
  assume "CanonicalMIMEHeaderKey (CSRFHeader P) \<noteq> ''Access-Control-Expose-Headers''"
  then show "HeaderGet (fst (GetCSRFToken h P c s)) (CSRFHeader P) = Some (MakeToken P sid)"
    by (simp add: r HeaderGet_NoContent HeaderGet_HeaderSet_other HeaderGet_HeaderSet_same canon_ACEH)
next
  assume a: "\<forall>sid. Store c ''sid'' \<noteq> Some (VString sid)"
  then have r: "fst (GetCSRFToken h P c s) = JSON 401 (JRestError (NewUnauthorizedError (CauseErr Unauthorized))) c"
    by (auto simp: GetCSRFToken_def ErrResponseWithLog_def NewUnauthorizedError_def
        split: option.splits ctx_val.splits)
  show "fst (GetCSRFToken h P c s) = JSON 401 (JRestError (NewUnauthorizedError (CauseErr Unauthorized))) c"
    by (rule r)
  show "Status (Resp (fst (GetCSRFToken h P c s))) = Some 401"
    "RespBody (Resp (fst (GetCSRFToken h P c s))) = Some (JRestError \<lparr> ErrError = ''Unauthorized'', ErrStatus = 401 \<rparr>)"
    "Header (Resp (fst (GetCSRFToken h P c s))) = Header (Resp c)"
    by (simp_all add: r JSON_def NewUnauthorizedError_def)
qed

theorem GetCSRFToken_outcomes_witness:
  "Store (mem_ctx (mem_req [] [] []) [''sid'' \<mapsto> VString ''abc'']) ''sid'' = Some (VString ''abc'')
   \<and> CanonicalMIMEHeaderKey (CSRFHeader mem_pkg) \<noteq> ''Access-Control-Expose-Headers''
   \<and> Status (Resp (fst (GetCSRFToken mem_h mem_pkg (mem_ctx (mem_req [] [] []) [''sid'' \<mapsto> VString ''abc''])
        (mem_env ([], []))))) = Some 200
   \<and> Header (Resp (fst (GetCSRFToken mem_h mem_pkg (mem_ctx (mem_req [] [] []) [''sid'' \<mapsto> VString ''abc''])
        (mem_env ([], []))))) = [(''X-Csrf-Token'', ''cba''), (''Access-Control-Expose-Headers'', ''X-CSRF-Token'')]
   \<and> HeaderGet (fst (GetCSRFToken mem_h mem_pkg (mem_ctx (mem_req [] [] []) [''sid'' \<mapsto> VString ''abc''])
        (mem_env ([], [])))) ''X-CSRF-Token'' = Some ''cba''
   \<and> (\<forall>sid. Store (mem_ctx (mem_req [] [] []) Map.empty :: (User \<times> string) Context) ''sid'' \<noteq> Some (VString sid))
   \<and> Status (Resp (fst (GetCSRFToken mem_h mem_pkg (mem_ctx (mem_req [] [] []) Map.empty)
        (mem_env ([], []))))) = Some 401"
proof -
  have k: "CSRFHeader mem_pkg = ''X-CSRF-Token''" "MakeToken mem_pkg ''abc'' = ''cba''"
    by (simp_all add: mem_pkg_def)
  show ?thesis
    using
      GetCSRFToken_outcomes [where c = "mem_ctx (mem_req [] [] []) [''sid'' \<mapsto> VString ''abc'']"
        and sid = "''abc''" and h = mem_h and P = mem_pkg and s = "mem_env ([], [])"]
      GetCSRFToken_outcomes [where c = "mem_ctx (mem_req [] [] []) Map.empty"
        and h = mem_h and P = mem_pkg and s = "mem_env ([], [])"]
    by (simp add: k canon_mem_header canon_ACEH mem_ctx_def NoContent_def HeaderSet_def HeaderGet_def
        JSON_def NewUnauthorizedError_def)
qed

section \<open>FindByName\<close>

text \<open>
  C5. When the query parameter \<^verbatim>\<open>name\<close> is missing or empty, \<^verbatim>\<open>FindByName\<close> answers 400
  with a BadRequest body and calls no use case; when the name is there and the search
  succeeds, it answers 200 with the list the search returned.
\<close>

theorem FindByName_outcomes:
  "((Query (Req c) ''name'' = None \<or> Query (Req c) ''name'' = Some []) \<longrightarrow>
      FindByName h P c s =
        (JSON 400 (JRestError (NewBadRequestError (CauseStr ''name is required''))) c,
         s\<lparr>logged := logged s @ [RestErr (NewBadRequestError (CauseStr ''name is required''))]\<rparr>)
      \<and> Status (Resp (fst (FindByName h P c s))) = Some 400
      \<and> RespBody (Resp (fst (FindByName h P c s))) = Some (JRestError \<lparr> ErrError = ''Bad request'', ErrStatus = 400 \<rparr>)
      \<and> calls (snd (FindByName h P c s)) = calls s \<and> world (snd (FindByName h P c s)) = world s)
   \<and> (Query (Req c) ''name'' = Some name \<and> name \<noteq> []
        \<and> GetPaginationFromCtx P c = Inr pq
        \<and> uc_FindByName (authUC h) name pq (world s) = (Inr response, w1) \<longrightarrow>
      FindByName h P c s =
        (JSON 200 (JUsersList response) c,
         s\<lparr>world := w1, calls := calls s @ [CallFindByName name pq]\<rparr>))"
  by (auto simp: FindByName_def QueryParam_def LogResponseError_def StatusBadRequest_def StatusOK_def
      JSON_def NewBadRequestError_def invoke_def)

theorem FindByName_outcomes_witness:
  "Query (Req (mem_ctx (mem_req [] [] [(''page'', ''1'')]) Map.empty)) ''name'' = None
   \<and> Status (Resp (fst (FindByName mem_h mem_pkg (mem_ctx (mem_req [] [] [(''page'', ''1'')]) Map.empty)
        (mem_env ([mem_user 1 ''ann'', mem_user 2 ''bob''], []))))) = Some 400
   \<and> calls (snd (FindByName mem_h mem_pkg (mem_ctx (mem_req [] [] [(''page'', ''1'')]) Map.empty)
        (mem_env ([mem_user 1 ''ann'', mem_user 2 ''bob''], [])))) = []
   \<and> Query (Req (mem_ctx (mem_req [] [] [(''name'', ''ann'')]) Map.empty)) ''name'' = Some ''ann''
   \<and> Status (Resp (fst (FindByName mem_h mem_pkg (mem_ctx (mem_req [] [] [(''name'', ''ann'')]) Map.empty)
        (mem_env ([mem_user 1 ''ann'', mem_user 2 ''bob''], []))))) = Some 200
   \<and> RespBody (Resp (fst (FindByName mem_h mem_pkg (mem_ctx (mem_req [] [] [(''name'', ''ann'')]) Map.empty)
        (mem_env ([mem_user 1 ''ann'', mem_user 2 ''bob''], [])))))
      = Some (JUsersList \<lparr> total_count = 1, total_pages = 1, page = 1, size = 10, has_more = False,
            users = [mem_user 1 ''ann''] \<rparr>)
   \<and> calls (snd (FindByName mem_h mem_pkg (mem_ctx (mem_req [] [] [(''name'', ''ann'')]) Map.empty)
        (mem_env ([mem_user 1 ''ann'', mem_user 2 ''bob''], []))))
      = [CallFindByName ''ann'' \<lparr> Size = 10, Page = 1, OrderBy = [] \<rparr>]"
proof -
  have pq: "GetPaginationFromCtx mem_pkg (mem_ctx (mem_req [] [] [(''name'', ''ann'')]) Map.empty)
      = Inr \<lparr> Size = 10, Page = 1, OrderBy = [] \<rparr>"
    by (simp add: mem_pkg_def)
  have q1: "Query (Req (mem_ctx (mem_req [] [] [(''page'', ''1'')]) Map.empty)) ''name'' = None"
    by (simp add: mem_ctx_def mem_req_def)
  have q2: "Query (Req (mem_ctx (mem_req [] [] [(''name'', ''ann'')]) Map.empty)) ''name'' = Some ''ann''"
    by (simp add: mem_ctx_def mem_req_def)
  have ev: "world (mem_env w) = w" "calls (mem_env w) = []" for w
    by (simp_all add: mem_env_def)
  show ?thesis
    using
      FindByName_outcomes [where c = "mem_ctx (mem_req [] [] [(''page'', ''1'')]) Map.empty"
        and h = mem_h and P = mem_pkg and s = "mem_env ([mem_user 1 ''ann'', mem_user 2 ''bob''], [])"]
      FindByName_outcomes [where c = "mem_ctx (mem_req [] [] [(''name'', ''ann'')]) Map.empty"
        and h = mem_h and P = mem_pkg and s = "mem_env ([mem_user 1 ''ann'', mem_user 2 ''bob''], [])"
        and name = "''ann''" and pq = "\<lparr> Size = 10, Page = 1, OrderBy = [] \<rparr>"
        and response = "\<lparr> total_count = 1, total_pages = 1, page = 1, size = 10, has_more = False,
            users = [mem_user 1 ''ann''] \<rparr>"
        and ?w1.0 = "([mem_user 1 ''ann'', mem_user 2 ''bob''], [])"]
    by (simp add: pq q1 q2 ev mem_find_ann JSON_def)
qed

section \<open>The pagination envelope of List and FindByName\<close>

text \<open>
  C7. Every envelope that \<^verbatim>\<open>List\<close> or \<^verbatim>\<open>FindByName\<close> returns has
  \<open>total_pages = ceil(total_count / size)\<close> and \<open>has_more = (page < total_pages)\<close>;
  in integers, the number of pages is \<open>(total_count + size - 1) div size\<close>, there is
  more exactly when users lie beyond the page, and the page holds what is left of the
  directory up to \<open>size\<close>. On a directory of 25 users with size 10, page 2 has 10 users,
  3 pages in all and more to come; page 3 has 5 users and no more.
\<close>

theorem UsersList_envelope:
  "(Directory_List q us = Inr r \<or> Directory_FindByName matches name q us = Inr r \<longrightarrow>
        total_pages r = \<lceil>real_of_int (total_count r) / real_of_int (size r)\<rceil>
      \<and> has_more r = (page r < total_pages r)
      \<and> total_pages r = (total_count r + size r - 1) div size r
      \<and> has_more r = (page r * size r < total_count r)
      \<and> int (length (users r)) = max 0 (min (size r) (total_count r - (page r - 1) * size r)))
   \<and> (length us = 25 \<longrightarrow>
        (\<exists>r2 r3. Directory_List \<lparr> Size = 10, Page = 2, OrderBy = ob \<rparr> us = Inr r2
            \<and> users r2 = take 10 (drop 10 us) \<and> length (users r2) = 10
            \<and> total_pages r2 = 3 \<and> has_more r2
            \<and> Directory_List \<lparr> Size = 10, Page = 3, OrderBy = ob \<rparr> us = Inr r3
            \<and> users r3 = drop 20 us \<and> length (users r3) = 5
            \<and> total_pages r3 = 3 \<and> \<not> has_more r3))"
proof (intro conjI impI)
  assume a: "Directory_List q us = Inr r \<or> Directory_FindByName matches name q us = Inr r"
  then obtain vs where u: "UsersPage q vs = Inr r"
    by (auto simp: Directory_List_def Directory_FindByName_def)
  show "total_pages r = \<lceil>real_of_int (total_count r) / real_of_int (size r)\<rceil>"
    "has_more r = (page r < total_pages r)"
    "total_pages r = (total_count r + size r - 1) div size r"
    "has_more r = (page r * size r < total_count r)"
    "int (length (users r)) = max 0 (min (size r) (total_count r - (page r - 1) * size r))"
    by (rule UsersPage_envelope [OF u])+
next
  assume l: "length us = 25"
  show "\<exists>r2 r3. Directory_List \<lparr> Size = 10, Page = 2, OrderBy = ob \<rparr> us = Inr r2
            \<and> users r2 = take 10 (drop 10 us) \<and> length (users r2) = 10
            \<and> total_pages r2 = 3 \<and> has_more r2
            \<and> Directory_List \<lparr> Size = 10, Page = 3, OrderBy = ob \<rparr> us = Inr r3
            \<and> users r3 = drop 20 us \<and> length (users r3) = 5
            \<and> total_pages r3 = 3 \<and> \<not> has_more r3"
    using l by (simp add: Directory_List_def UsersPage_def GetTotalPages_int GetHasMore_def)
qed

theorem UsersList_envelope_witness:
  "length (map (\<lambda>i. mem_user (int i) ''u'') [0..<25]) = 25
   \<and> Directory_List \<lparr> Size = 10, Page = 2, OrderBy = [] \<rparr> (map (\<lambda>i. mem_user (int i) ''u'') [0..<25])
      = Inr \<lparr> total_count = 25, total_pages = 3, page = 2, size = 10, has_more = True,
              users = map (\<lambda>i. mem_user (int i) ''u'') [10..<20] \<rparr>
   \<and> Directory_List \<lparr> Size = 10, Page = 3, OrderBy = [] \<rparr> (map (\<lambda>i. mem_user (int i) ''u'') [0..<25])
      = Inr \<lparr> total_count = 25, total_pages = 3, page = 3, size = 10, has_more = False,
              users = map (\<lambda>i. mem_user (int i) ''u'') [20..<25] \<rparr>
   \<and> total_pages \<lparr> total_count = 25, total_pages = 3, page = 2, size = 10, has_more = True,
              users = map (\<lambda>i. mem_user (int i) ''u'') [10..<20] \<rparr>
       = \<lceil>real_of_int 25 / real_of_int 10\<rceil>"
proof -
  let ?us = "map (\<lambda>i. mem_user (int i) ''u'') [0..<25]"
  let ?r2 = "\<lparr> total_count = 25, total_pages = 3, page = 2, size = 10, has_more = True,
              users = map (\<lambda>i. mem_user (int i) ''u'') [10..<20] \<rparr>"
  have d2: "Directory_List \<lparr> Size = 10, Page = 2, OrderBy = [] \<rparr> ?us = Inr ?r2"
    by (simp add: Directory_List_def UsersPage_def GetTotalPages_int GetHasMore_def
        take_map drop_map del: upt_Suc) 
  have d3: "Directory_List \<lparr> Size = 10, Page = 3, OrderBy = [] \<rparr> ?us
      = Inr \<lparr> total_count = 25, total_pages = 3, page = 3, size = 10, has_more = False,
              users = map (\<lambda>i. mem_user (int i) ''u'') [20..<25] \<rparr>"
    by (simp add: Directory_List_def UsersPage_def GetTotalPages_int GetHasMore_def
        take_map drop_map del: upt_Suc)
  show ?thesis
    using d2 d3 UsersList_envelope [where q = "\<lparr> Size = 10, Page = 2, OrderBy = [] \<rparr>" and us = ?us and r = ?r2]
    by simp
qed

section \<open>Sanitize\<close>

text \<open>
  C8. When reading the request body fails, or the body does not sanitise, \<^verbatim>\<open>Sanitize\<close>
  answers 400 without a body and the next handler does not run (the result does not
  depend on it); otherwise the sanitised body is stored under \<^verbatim>\<open>body\<close> and the result
  is that of the next handler on that context.
\<close>

theorem Sanitize_outcomes:
  "(Body (Req ctx) = Inl e \<longrightarrow>
      Sanitize SanitizeJSON next ctx s = (NoContent 400 ctx, s)
      \<and> Status (Resp (fst (Sanitize SanitizeJSON next ctx s))) = Some 400
      \<and> RespBody (Resp (fst (Sanitize SanitizeJSON next ctx s))) = None)
   \<and> (Body (Req ctx) = Inr body \<and> SanitizeJSON body = Inl e \<longrightarrow>
      Sanitize SanitizeJSON next ctx s = (NoContent 400 (ctx\<lparr>Req := (Req ctx)\<lparr>Body := Inr []\<rparr>\<rparr>), s)
      \<and> Status (Resp (fst (Sanitize SanitizeJSON next ctx s))) = Some 400
      \<and> RespBody (Resp (fst (Sanitize SanitizeJSON next ctx s))) = None)
   \<and> (Body (Req ctx) = Inr body \<and> SanitizeJSON body = Inr sanBody \<longrightarrow>
      Sanitize SanitizeJSON next ctx s =
        next (ctx\<lparr>Req := (Req ctx)\<lparr>Body := Inr []\<rparr>, Store := (Store ctx)(''body'' \<mapsto> VBytes sanBody)\<rparr>) s)"
  by (simp add: Sanitize_def StatusBadRequest_def NoContent_def Let_def)

theorem Sanitize_outcomes_witness:
  "Body (Req (mem_body_ctx (Inl (Err ''unexpected EOF'')))) = Inl (Err ''unexpected EOF'')
   \<and> Sanitize mem_SanitizeJSON count_next (mem_body_ctx (Inl (Err ''unexpected EOF''))) 0
        = (NoContent 400 (mem_body_ctx (Inl (Err ''unexpected EOF''))), 0)
   \<and> mem_SanitizeJSON ''{'' = Inl (Err ''invalid json'')
   \<and> Sanitize mem_SanitizeJSON count_next (mem_body_ctx (Inr ''{'')) 0
        = (NoContent 400 (mem_body_ctx (Inr [])), 0)
   \<and> mem_SanitizeJSON ''{}'' = Inr ''{}''
   \<and> Sanitize mem_SanitizeJSON count_next (mem_body_ctx (Inr ''{}'')) 0
        = (NoContent 200 ((mem_body_ctx (Inr []))\<lparr>Store := [''body'' \<mapsto> VBytes ''{}'']\<rparr>), 1)"
  using
    Sanitize_outcomes [where ctx = "mem_body_ctx (Inl (Err ''unexpected EOF''))" and e = "Err ''unexpected EOF''"
      and SanitizeJSON = mem_SanitizeJSON and ?next = count_next and s = 0]
    Sanitize_outcomes [where ctx = "mem_body_ctx (Inr ''{'')" and body = "''{''" and e = "Err ''invalid json''"
      and SanitizeJSON = mem_SanitizeJSON and ?next = count_next and s = 0]
    Sanitize_outcomes [where ctx = "mem_body_ctx (Inr ''{}'')" and body = "''{}''" and sanBody = "''{}''"
      and SanitizeJSON = mem_SanitizeJSON and ?next = count_next and s = 0]
  by (simp add: mem_body_ctx_def mem_SanitizeJSON_def count_next_def mem_ctx_def mem_req_def)

section \<open>The session cookie of Register and Login\<close>

text \<open>
  C9 (amended). \<^verbatim>\<open>Register\<close> and \<^verbatim>\<open>Login\<close> call \<^verbatim>\<open>SetCookie\<close>, with the cookie built
  for the session id that \<^verbatim>\<open>CreateSession\<close> returned, exactly when the request is read,
  the user operation succeeds and the session is created; the answer is then the
  user that the use case returned, with status 201 or 200, and the response carries
  the cookie when the cookie built has a valid name. Every other path answers with
  the error response of the step that failed, after the calls made up to that step
  and no other, and leaves the cookies of the response as they were. So the cookies
  change exactly when all three steps succeed and the cookie has a valid name, and
  never together with an error body.
\<close>

theorem session_cookie_outcomes:
  "(ReadRegister P c = Inl e \<longrightarrow>
      Register h P c s = (JSON_ErrorResponse P e c, s\<lparr>logged := logged s @ [e]\<rparr>))
   \<and> (ReadRegister P c = Inr user \<and> uc_Register (authUC h) user (world s) = (Inl e, w1) \<longrightarrow>
      Register h P c s =
        (JSON_ErrorResponse P e c,
         s\<lparr>world := w1, calls := calls s @ [CallRegister user], logged := logged s @ [e]\<rparr>))
   \<and> (ReadRegister P c = Inr user \<and> uc_Register (authUC h) user (world s) = (Inr cu, w1)
        \<and> uc_CreateSession (sessUC h) \<lparr> SessionID = [], UserID = ID (User cu) \<rparr>
              (Session_Expire (cfg h)) w1 = (Inl e, w2) \<longrightarrow>
      Register h P c s =
        (JSON_ErrorResponse P e c,
         s\<lparr>world := w2,
           calls := calls s @ [CallRegister user,
              CallCreateSession \<lparr> SessionID = [], UserID = ID (User cu) \<rparr> (Session_Expire (cfg h))],
           logged := logged s @ [e]\<rparr>))
   \<and> (ReadRegister P c = Inr user \<and> uc_Register (authUC h) user (world s) = (Inr cu, w1)
        \<and> uc_CreateSession (sessUC h) \<lparr> SessionID = [], UserID = ID (User cu) \<rparr>
              (Session_Expire (cfg h)) w1 = (Inr sid, w2) \<longrightarrow>
      Register h P c s =
        (JSON 201 (JUserWithToken cu) (SetCookie (CreateSessionCookie P (cfg h) sid) c),
         s\<lparr>world := w2,
           calls := calls s @ [CallRegister user,
              CallCreateSession \<lparr> SessionID = [], UserID = ID (User cu) \<rparr> (Session_Expire (cfg h))]\<rparr>)
      \<and> SetCookies (Resp (fst (Register h P c s))) =
          SetCookies (Resp c) @
            (case CreateSessionCookie P (cfg h) sid of
               None \<Rightarrow> []
             | Some ck \<Rightarrow> if isCookieNameValid (Name ck) then [ck] else [])
      \<and> Status (Resp (fst (Register h P c s))) = Some 201
      \<and> RespBody (Resp (fst (Register h P c s))) = Some (JUserWithToken cu))
   \<and> (ReadLogin P c = Inl e \<longrightarrow>
      Login h P c s = (JSON_ErrorResponse P e c, s\<lparr>logged := logged s @ [e]\<rparr>))
   \<and> (ReadLogin P c = Inr login \<and> uc_Login (authUC h) login (world s) = (Inl e, w1) \<longrightarrow>
      Login h P c s =
        (JSON_ErrorResponse P e c,
         s\<lparr>world := w1, calls := calls s @ [CallLogin login], logged := logged s @ [e]\<rparr>))
   \<and> (ReadLogin P c = Inr login \<and> uc_Login (authUC h) login (world s) = (Inr cu, w1)
        \<and> uc_CreateSession (sessUC h) \<lparr> SessionID = [], UserID = ID (User cu) \<rparr>
              (Session_Expire (cfg h)) w1 = (Inl e, w2) \<longrightarrow>
      Login h P c s =
        (JSON_ErrorResponse P e c,
         s\<lparr>world := w2,
           calls := calls s @ [CallLogin login,
              CallCreateSession \<lparr> SessionID = [], UserID = ID (User cu) \<rparr> (Session_Expire (cfg h))],
           logged := logged s @ [e]\<rparr>))
   \<and> (ReadLogin P c = Inr login \<and> uc_Login (authUC h) login (world s) = (Inr cu, w1)
        \<and> uc_CreateSession (sessUC h) \<lparr> SessionID = [], UserID = ID (User cu) \<rparr>
              (Session_Expire (cfg h)) w1 = (Inr sid, w2) \<longrightarrow>
      Login h P c s =
        (JSON 200 (JUserWithToken cu) (SetCookie (CreateSessionCookie P (cfg h) sid) c),
         s\<lparr>world := w2,
           calls := calls s @ [CallLogin login,
              CallCreateSession \<lparr> SessionID = [], UserID = ID (User cu) \<rparr> (Session_Expire (cfg h))]\<rparr>)
      \<and> SetCookies (Resp (fst (Login h P c s))) =
          SetCookies (Resp c) @
            (case CreateSessionCookie P (cfg h) sid of
               None \<Rightarrow> []
             | Some ck \<Rightarrow> if isCookieNameValid (Name ck) then [ck] else [])
      \<and> Status (Resp (fst (Login h P c s))) = Some 200
      \<and> RespBody (Resp (fst (Login h P c s))) = Some (JUserWithToken cu))
   \<and> SetCookies (Resp (JSON_ErrorResponse P e c)) = SetCookies (Resp c)
   \<and> RespBody (Resp (JSON_ErrorResponse P e c)) = Some (JRestError (snd (ErrorResponse P e)))
   \<and> ((SetCookies (Resp (fst (Register h P c s))) \<noteq> SetCookies (Resp c)) =
      (\<exists>user cu w1 sid w2 ck.
          ReadRegister P c = Inr user
        \<and> uc_Register (authUC h) user (world s) = (Inr cu, w1)
        \<and> uc_CreateSession (sessUC h) \<lparr> SessionID = [], UserID = ID (User cu) \<rparr>
              (Session_Expire (cfg h)) w1 = (Inr sid, w2)
        \<and> CreateSessionCookie P (cfg h) sid = Some ck \<and> isCookieNameValid (Name ck)))
   \<and> ((SetCookies (Resp (fst (Login h P c s))) \<noteq> SetCookies (Resp c)) =
      (\<exists>login cu w1 sid w2 ck.
          ReadLogin P c = Inr login
        \<and> uc_Login (authUC h) login (world s) = (Inr cu, w1)
        \<and> uc_CreateSession (sessUC h) \<lparr> SessionID = [], UserID = ID (User cu) \<rparr>
              (Session_Expire (cfg h)) w1 = (Inr sid, w2)
        \<and> CreateSessionCookie P (cfg h) sid = Some ck \<and> isCookieNameValid (Name ck)))
   \<and> \<not> (SetCookies (Resp (fst (Register h P c s))) \<noteq> SetCookies (Resp c)
          \<and> (\<exists>r. RespBody (Resp (fst (Register h P c s))) = Some (JRestError r)))
   \<and> \<not> (SetCookies (Resp (fst (Login h P c s))) \<noteq> SetCookies (Resp c)
          \<and> (\<exists>r. RespBody (Resp (fst (Login h P c s))) = Some (JRestError r)))"
proof -
  have r1: "ReadRegister P c = Inl e \<longrightarrow>
      Register h P c s = (JSON_ErrorResponse P e c, s\<lparr>logged := logged s @ [e]\<rparr>)"
    by (simp add: Register_def LogResponseError_def)
  have r2: "ReadRegister P c = Inr user \<and> uc_Register (authUC h) user (world s) = (Inl e, w1) \<longrightarrow>
      Register h P c s =
        (JSON_ErrorResponse P e c,
         s\<lparr>world := w1, calls := calls s @ [CallRegister user], logged := logged s @ [e]\<rparr>)"
    by (simp add: Register_def invoke_def LogResponseError_def)
  have r3: "ReadRegister P c = Inr user \<and> uc_Register (authUC h) user (world s) = (Inr cu, w1)
        \<and> uc_CreateSession (sessUC h) \<lparr> SessionID = [], UserID = ID (User cu) \<rparr>
              (Session_Expire (cfg h)) w1 = (Inl e, w2) \<longrightarrow>
      Register h P c s =
        (JSON_ErrorResponse P e c,
         s\<lparr>world := w2,
           calls := calls s @ [CallRegister user,
              CallCreateSession \<lparr> SessionID = [], UserID = ID (User cu) \<rparr> (Session_Expire (cfg h))],
           logged := logged s @ [e]\<rparr>)"
    by (simp add: Register_def invoke_def LogResponseError_def Let_def)
  have r4: "ReadRegister P c = Inr user \<and> uc_Register (authUC h) user (world s) = (Inr cu, w1)
        \<and> uc_CreateSession (sessUC h) \<lparr> SessionID = [], UserID = ID (User cu) \<rparr>
              (Session_Expire (cfg h)) w1 = (Inr sid, w2) \<longrightarrow>
      Register h P c s =
        (JSON 201 (JUserWithToken cu) (SetCookie (CreateSessionCookie P (cfg h) sid) c),
         s\<lparr>world := w2,
           calls := calls s @ [CallRegister user,
              CallCreateSession \<lparr> SessionID = [], UserID = ID (User cu) \<rparr> (Session_Expire (cfg h))]\<rparr>)
      \<and> SetCookies (Resp (fst (Register h P c s))) =
          SetCookies (Resp c) @
            (case CreateSessionCookie P (cfg h) sid of
               None \<Rightarrow> []
             | Some ck \<Rightarrow> if isCookieNameValid (Name ck) then [ck] else [])
      \<and> Status (Resp (fst (Register h P c s))) = Some 201
      \<and> RespBody (Resp (fst (Register h P c s))) = Some (JUserWithToken cu)"
    by (simp add: Register_def invoke_def Let_def StatusCreated_def SetCookies_JSON
        SetCookies_SetCookie RespBody_JSON)
  have l1: "ReadLogin P c = Inl e \<longrightarrow>
      Login h P c s = (JSON_ErrorResponse P e c, s\<lparr>logged := logged s @ [e]\<rparr>)"
    by (simp add: Login_def LogResponseError_def)
  have l2: "ReadLogin P c = Inr login \<and> uc_Login (authUC h) login (world s) = (Inl e, w1) \<longrightarrow>
      Login h P c s =
        (JSON_ErrorResponse P e c,
         s\<lparr>world := w1, calls := calls s @ [CallLogin login], logged := logged s @ [e]\<rparr>)"
    by (simp add: Login_def invoke_def LogResponseError_def)
  have l3: "ReadLogin P c = Inr login \<and> uc_Login (authUC h) login (world s) = (Inr cu, w1)
        \<and> uc_CreateSession (sessUC h) \<lparr> SessionID = [], UserID = ID (User cu) \<rparr>
              (Session_Expire (cfg h)) w1 = (Inl e, w2) \<longrightarrow>
      Login h P c s =
        (JSON_ErrorResponse P e c,
         s\<lparr>world := w2,
           calls := calls s @ [CallLogin login,
              CallCreateSession \<lparr> SessionID = [], UserID = ID (User cu) \<rparr> (Session_Expire (cfg h))],
           logged := logged s @ [e]\<rparr>)"
    by (simp add: Login_def invoke_def LogResponseError_def Let_def)
  have l4: "ReadLogin P c = Inr login \<and> uc_Login (authUC h) login (world s) = (Inr cu, w1)
        \<and> uc_CreateSession (sessUC h) \<lparr> SessionID = [], UserID = ID (User cu) \<rparr>
              (Session_Expire (cfg h)) w1 = (Inr sid, w2) \<longrightarrow>
      Login h P c s =
        (JSON 200 (JUserWithToken cu) (SetCookie (CreateSessionCookie P (cfg h) sid) c),
         s\<lparr>world := w2,
           calls := calls s @ [CallLogin login,
              CallCreateSession \<lparr> SessionID = [], UserID = ID (User cu) \<rparr> (Session_Expire (cfg h))]\<rparr>)
      \<and> SetCookies (Resp (fst (Login h P c s))) =
          SetCookies (Resp c) @
            (case CreateSessionCookie P (cfg h) sid of
               None \<Rightarrow> []
             | Some ck \<Rightarrow> if isCookieNameValid (Name ck) then [ck] else [])
      \<and> Status (Resp (fst (Login h P c s))) = Some 200
      \<and> RespBody (Resp (fst (Login h P c s))) = Some (JUserWithToken cu)"
    by (simp add: Login_def invoke_def Let_def StatusOK_def SetCookies_JSON
        SetCookies_SetCookie RespBody_JSON)
  have e1: "SetCookies (Resp (JSON_ErrorResponse P e c)) = SetCookies (Resp c)"
    and e2: "RespBody (Resp (JSON_ErrorResponse P e c)) = Some (JRestError (snd (ErrorResponse P e)))"
    by (rule SetCookies_ErrorResponse)+
  have i1: "(SetCookies (Resp (fst (Register h P c s))) \<noteq> SetCookies (Resp c)) =
      (\<exists>user cu w1 sid w2 ck.
          ReadRegister P c = Inr user
        \<and> uc_Register (authUC h) user (world s) = (Inr cu, w1)
        \<and> uc_CreateSession (sessUC h) \<lparr> SessionID = [], UserID = ID (User cu) \<rparr>
              (Session_Expire (cfg h)) w1 = (Inr sid, w2)
        \<and> CreateSessionCookie P (cfg h) sid = Some ck \<and> isCookieNameValid (Name ck))"
    unfolding Register_fst_cases
    by (auto simp: SetCookies_ErrorResponse SetCookies_JSON SetCookies_SetCookie
        split: sum.splits prod.splits option.splits if_splits) (metis prod.collapse)+
  have i2: "(SetCookies (Resp (fst (Login h P c s))) \<noteq> SetCookies (Resp c)) =
      (\<exists>login cu w1 sid w2 ck.
          ReadLogin P c = Inr login
        \<and> uc_Login (authUC h) login (world s) = (Inr cu, w1)
        \<and> uc_CreateSession (sessUC h) \<lparr> SessionID = [], UserID = ID (User cu) \<rparr>
              (Session_Expire (cfg h)) w1 = (Inr sid, w2)
        \<and> CreateSessionCookie P (cfg h) sid = Some ck \<and> isCookieNameValid (Name ck))"
    unfolding Login_fst_cases
    by (auto simp: SetCookies_ErrorResponse SetCookies_JSON SetCookies_SetCookie
        split: sum.splits prod.splits option.splits if_splits) (metis prod.collapse)+
  have n1: "\<not> (SetCookies (Resp (fst (Register h P c s))) \<noteq> SetCookies (Resp c)
          \<and> (\<exists>r. RespBody (Resp (fst (Register h P c s))) = Some (JRestError r)))"
    unfolding Register_fst_cases
    by (auto simp: SetCookies_ErrorResponse RespBody_JSON split: sum.splits)
  have n2: "\<not> (SetCookies (Resp (fst (Login h P c s))) \<noteq> SetCookies (Resp c)
          \<and> (\<exists>r. RespBody (Resp (fst (Login h P c s))) = Some (JRestError r)))"
    unfolding Login_fst_cases
    by (auto simp: SetCookies_ErrorResponse RespBody_JSON split: sum.splits)
  from r1 r2 r3 r4 l1 l2 l3 l4 e1 e2 i1 i2 n1 n2 show ?thesis
    by (intro conjI)
qed

theorem session_cookie_outcomes_witness:
  "Status (Resp (fst (Register mem_h mem_pkg (mem_ctx (mem_req [] [] []) Map.empty) (mem_env ([], [])))))
      = Some 500
   \<and> snd (Register mem_h mem_pkg (mem_ctx (mem_req [] [] []) Map.empty) (mem_env ([], [])))
      = \<lparr> world = ([], []), calls = [], logged = [Err ''no body''] \<rparr>
   \<and> SetCookies (Resp (fst (Register mem_h mem_pkg (mem_ctx (mem_req [] [] []) Map.empty)
        (mem_env ([], []))))) = []
   \<and> Status (Resp (fst (Register mem_h mem_pkg (mem_ctx (mem_req [] [] []) [''body'' \<mapsto> VBytes ''ann''])
        (mem_env ([mem_user 1 ''ann''], []))))) = Some 409
   \<and> calls (snd (Register mem_h mem_pkg (mem_ctx (mem_req [] [] []) [''body'' \<mapsto> VBytes ''ann''])
        (mem_env ([mem_user 1 ''ann''], []))))
      = [CallRegister (User_zero\<lparr>first_name := ''ann'', password := ''secret1''\<rparr>)]
   \<and> SetCookies (Resp (fst (Register mem_h mem_pkg (mem_ctx (mem_req [] [] []) [''body'' \<mapsto> VBytes ''ann''])
        (mem_env ([mem_user 1 ''ann''], []))))) = []
   \<and> Status (Resp (fst (Register down_h mem_pkg (mem_ctx (mem_req [] [] []) [''body'' \<mapsto> VBytes ''ann''])
        (mem_env ([], []))))) = Some 500
   \<and> calls (snd (Register down_h mem_pkg (mem_ctx (mem_req [] [] []) [''body'' \<mapsto> VBytes ''ann''])
        (mem_env ([], []))))
      = [CallRegister (User_zero\<lparr>first_name := ''ann'', password := ''secret1''\<rparr>),
         CallCreateSession \<lparr> SessionID = [], UserID = 1 \<rparr> 3600]
   \<and> SetCookies (Resp (fst (Register down_h mem_pkg (mem_ctx (mem_req [] [] []) [''body'' \<mapsto> VBytes ''ann''])
        (mem_env ([], []))))) = []
   \<and> Status (Resp (fst (Register mem_h mem_pkg (mem_ctx (mem_req [] [] []) [''body'' \<mapsto> VBytes ''ann''])
        (mem_env ([], []))))) = Some 201
   \<and> RespBody (Resp (fst (Register mem_h mem_pkg (mem_ctx (mem_req [] [] []) [''body'' \<mapsto> VBytes ''ann''])
        (mem_env ([], [])))))
      = Some (JUserWithToken \<lparr> User = User_zero\<lparr>ID := 1, first_name := ''ann'', password := ''secret1''\<rparr>,
                               Token = [] \<rparr>)
   \<and> snd (Register mem_h mem_pkg (mem_ctx (mem_req [] [] []) [''body'' \<mapsto> VBytes ''ann''])
        (mem_env ([], [])))
      = \<lparr> world = ([User_zero\<lparr>ID := 1, first_name := ''ann'', password := ''secret1''\<rparr>], [(''sid-1'', 1)]),
          calls = [CallRegister (User_zero\<lparr>first_name := ''ann'', password := ''secret1''\<rparr>),
                   CallCreateSession \<lparr> SessionID = [], UserID = 1 \<rparr> 3600],
          logged = [] \<rparr>
   \<and> SetCookies (Resp (fst (Register mem_h mem_pkg (mem_ctx (mem_req [] [] []) [''body'' \<mapsto> VBytes ''ann''])
        (mem_env ([], []))))) = [\<lparr> Name = ''session-id'', Value = ''sid-1'', MaxAge = 3600 \<rparr>]
   \<and> Status (Resp (fst (Login mem_h mem_pkg (mem_ctx (mem_req [] [] []) Map.empty)
        (mem_env ([(mem_user 1 ''ann'')\<lparr>email := ''ann@x.org'', password := ''secret1''\<rparr>], [])))))
      = Some 500
   \<and> SetCookies (Resp (fst (Login mem_h mem_pkg (mem_ctx (mem_req [] [] []) Map.empty)
        (mem_env ([(mem_user 1 ''ann'')\<lparr>email := ''ann@x.org'', password := ''secret1''\<rparr>], []))))) = []
   \<and> Status (Resp (fst (Login mem_h mem_pkg (mem_ctx (mem_req [] [] []) [''body'' \<mapsto> VBytes ''bob@x.org''])
        (mem_env ([(mem_user 1 ''ann'')\<lparr>email := ''ann@x.org'', password := ''secret1''\<rparr>], [])))))
      = Some 401
   \<and> calls (snd (Login mem_h mem_pkg (mem_ctx (mem_req [] [] []) [''body'' \<mapsto> VBytes ''bob@x.org''])
        (mem_env ([(mem_user 1 ''ann'')\<lparr>email := ''ann@x.org'', password := ''secret1''\<rparr>], []))))
      = [CallLogin (''bob@x.org'', ''secret1'')]
   \<and> SetCookies (Resp (fst (Login mem_h mem_pkg (mem_ctx (mem_req [] [] []) [''body'' \<mapsto> VBytes ''bob@x.org''])
        (mem_env ([(mem_user 1 ''ann'')\<lparr>email := ''ann@x.org'', password := ''secret1''\<rparr>], []))))) = []
   \<and> Status (Resp (fst (Login down_h mem_pkg (mem_ctx (mem_req [] [] []) [''body'' \<mapsto> VBytes ''ann@x.org''])
        (mem_env ([(mem_user 1 ''ann'')\<lparr>email := ''ann@x.org'', password := ''secret1''\<rparr>], [])))))
      = Some 500
   \<and> calls (snd (Login down_h mem_pkg (mem_ctx (mem_req [] [] []) [''body'' \<mapsto> VBytes ''ann@x.org''])
        (mem_env ([(mem_user 1 ''ann'')\<lparr>email := ''ann@x.org'', password := ''secret1''\<rparr>], []))))
      = [CallLogin (''ann@x.org'', ''secret1''), CallCreateSession \<lparr> SessionID = [], UserID = 1 \<rparr> 3600]
   \<and> SetCookies (Resp (fst (Login down_h mem_pkg (mem_ctx (mem_req [] [] []) [''body'' \<mapsto> VBytes ''ann@x.org''])
        (mem_env ([(mem_user 1 ''ann'')\<lparr>email := ''ann@x.org'', password := ''secret1''\<rparr>], []))))) = []
   \<and> Status (Resp (fst (Login mem_h mem_pkg (mem_ctx (mem_req [] [] []) [''body'' \<mapsto> VBytes ''ann@x.org''])
        (mem_env ([(mem_user 1 ''ann'')\<lparr>email := ''ann@x.org'', password := ''secret1''\<rparr>], [])))))
      = Some 200
   \<and> RespBody (Resp (fst (Login mem_h mem_pkg (mem_ctx (mem_req [] [] []) [''body'' \<mapsto> VBytes ''ann@x.org''])
        (mem_env ([(mem_user 1 ''ann'')\<lparr>email := ''ann@x.org'', password := ''secret1''\<rparr>], [])))))
      = Some (JUserWithToken \<lparr> User = (mem_user 1 ''ann'')\<lparr>email := ''ann@x.org'', password := ''secret1''\<rparr>,
                               Token = [] \<rparr>)
   \<and> calls (snd (Login mem_h mem_pkg (mem_ctx (mem_req [] [] []) [''body'' \<mapsto> VBytes ''ann@x.org''])
        (mem_env ([(mem_user 1 ''ann'')\<lparr>email := ''ann@x.org'', password := ''secret1''\<rparr>], []))))
      = [CallLogin (''ann@x.org'', ''secret1''), CallCreateSession \<lparr> SessionID = [], UserID = 1 \<rparr> 3600]
   \<and> SetCookies (Resp (fst (Login mem_h mem_pkg (mem_ctx (mem_req [] [] []) [''body'' \<mapsto> VBytes ''ann@x.org''])
        (mem_env ([(mem_user 1 ''ann'')\<lparr>email := ''ann@x.org'', password := ''secret1''\<rparr>], [])))))
      = [\<lparr> Name = ''session-id'', Value = ''sid-1'', MaxAge = 3600 \<rparr>]"
proof -
  let ?c0 = "mem_ctx (mem_req [] [] []) Map.empty :: (User \<times> string) Context"
  let ?cA = "mem_ctx (mem_req [] [] []) [''body'' \<mapsto> VBytes ''ann'']"
  let ?cL = "mem_ctx (mem_req [] [] []) [''body'' \<mapsto> VBytes ''ann@x.org'']"
  let ?cB = "mem_ctx (mem_req [] [] []) [''body'' \<mapsto> VBytes ''bob@x.org'']"
  let ?u = "User_zero\<lparr>first_name := ''ann'', password := ''secret1''\<rparr>"
  let ?u1 = "User_zero\<lparr>ID := 1, first_name := ''ann'', password := ''secret1''\<rparr>"
  let ?a = "(mem_user 1 ''ann'')\<lparr>email := ''ann@x.org'', password := ''secret1''\<rparr>"
  let ?sess = "\<lparr> SessionID = [], UserID = 1 \<rparr>"
  have w: "world (mem_env x) = x" "Session_Expire (cfg mem_h) = 3600" "Session_Expire (cfg down_h) = 3600" for x
    by (simp_all add: mem_env_def mem_h_def down_h_def mem_cfg_def)
  have rd0: "ReadRegister mem_pkg ?c0 = Inl (Err ''no body'')"
    and rdA: "ReadRegister mem_pkg ?cA = Inr ?u"
    and ld0: "ReadLogin mem_pkg ?c0 = Inl (Err ''no body'')"
    and ldL: "ReadLogin mem_pkg ?cL = Inr (''ann@x.org'', ''secret1'')"
    and ldB: "ReadLogin mem_pkg ?cB = Inr (''bob@x.org'', ''secret1'')"
    by (simp_all add: mem_pkg_def mem_ctx_def)
  have regC: "uc_Register (authUC mem_h) ?u ([mem_user 1 ''ann''], [])
        = (Inl (RestErr \<lparr> ErrError = ''Conflict'', ErrStatus = 409 \<rparr>), ([mem_user 1 ''ann''], []))"
    and regM: "uc_Register (authUC mem_h) ?u ([], []) = (Inr \<lparr> User = ?u1, Token = [] \<rparr>, ([?u1], []))"
    and regD: "uc_Register (authUC down_h) ?u ([], []) = (Inr \<lparr> User = ?u1, Token = [] \<rparr>, ([?u1], []))"
    and logB: "uc_Login (authUC mem_h) (''bob@x.org'', ''secret1'') ([?a], [])
        = (Inl (RestErr (NewUnauthorizedError (CauseStr ''login''))), ([?a], []))"
    and logM: "uc_Login (authUC mem_h) (''ann@x.org'', ''secret1'') ([?a], [])
        = (Inr \<lparr> User = ?a, Token = [] \<rparr>, ([?a], []))"
    and logD: "uc_Login (authUC down_h) (''ann@x.org'', ''secret1'') ([?a], [])
        = (Inr \<lparr> User = ?a, Token = [] \<rparr>, ([?a], []))"
    by (simp_all add: mem_h_def down_h_def mem_authUC_def mem_user_def User_zero_def Let_def)
  have id1: "ID (User \<lparr> User = ?u1, Token = [] \<rparr>) = 1" "ID (User \<lparr> User = ?a, Token = [] \<rparr>) = 1"
    "ID (mem_user 1 ''ann'') = 1"
    by (simp_all add: mem_user_def User_zero_def)
  have csD: "uc_CreateSession (sessUC down_h) ?sess 3600 x = (Inl (Err ''cache down''), x)"
    and csM: "uc_CreateSession (sessUC mem_h) ?sess 3600 (us, ss) = (Inr ''sid-1'', (us, ss @ [(''sid-1'', 1)]))"
    for x us ss
    by (simp_all add: mem_h_def down_h_def mem_sessUC_def down_sessUC_def)
  have ck: "CreateSessionCookie mem_pkg (cfg mem_h) ''sid-1''
        = Some \<lparr> Name = ''session-id'', Value = ''sid-1'', MaxAge = 3600 \<rparr>"
    "isCookieNameValid ''session-id''"
    by (simp_all add: mem_pkg_def mem_h_def mem_cfg_def isCookieNameValid_def isTokenByte_def)
  have s1: "Register mem_h mem_pkg ?c0 (mem_env ([], []))
      = (JSON_ErrorResponse mem_pkg (Err ''no body'') ?c0,
         (mem_env ([], []))\<lparr>logged := logged (mem_env ([], [])) @ [Err ''no body'']\<rparr>)"
    using session_cookie_outcomes [where h = mem_h and P = mem_pkg and c = ?c0 and s = "mem_env ([], [])" and e = "Err ''no body''",
        THEN conjunct1]
      rd0 by simp
  have s2: "Register mem_h mem_pkg ?cA (mem_env ([mem_user 1 ''ann''], []))
      = (JSON_ErrorResponse mem_pkg (RestErr \<lparr> ErrError = ''Conflict'', ErrStatus = 409 \<rparr>) ?cA,
         (mem_env ([mem_user 1 ''ann''], []))\<lparr>world := ([mem_user 1 ''ann''], []),
            calls := calls (mem_env ([mem_user 1 ''ann''], [])) @ [CallRegister ?u],
            logged := logged (mem_env ([mem_user 1 ''ann''], []))
                        @ [RestErr \<lparr> ErrError = ''Conflict'', ErrStatus = 409 \<rparr>]\<rparr>)"
    using session_cookie_outcomes [where h = mem_h and P = mem_pkg and c = ?cA and s = "mem_env ([mem_user 1 ''ann''], [])"
        and user = ?u and e = "RestErr \<lparr> ErrError = ''Conflict'', ErrStatus = 409 \<rparr>"
        and ?w1.0 = "([mem_user 1 ''ann''], [])",
        THEN conjunct2, THEN conjunct1]
      rdA regC by (simp add: w)
  have s3: "Register down_h mem_pkg ?cA (mem_env ([], []))
      = (JSON_ErrorResponse mem_pkg (Err ''cache down'') ?cA,
         (mem_env ([], []))\<lparr>world := ([?u1], []),
            calls := calls (mem_env ([], [])) @ [CallRegister ?u, CallCreateSession ?sess 3600],
            logged := logged (mem_env ([], [])) @ [Err ''cache down'']\<rparr>)"
    using session_cookie_outcomes [where h = down_h and P = mem_pkg and c = ?cA and s = "mem_env ([], [])"
        and user = ?u and cu = "\<lparr> User = ?u1, Token = [] \<rparr>" and e = "Err ''cache down''"
        and ?w1.0 = "([?u1], [])" and ?w2.0 = "([?u1], [])",
        THEN conjunct2, THEN conjunct2, THEN conjunct1]
      rdA regD by (simp add: w id1 csD)
  have s4: "Register mem_h mem_pkg ?cA (mem_env ([], []))
      = (JSON 201 (JUserWithToken \<lparr> User = ?u1, Token = [] \<rparr>)
           (SetCookie (CreateSessionCookie mem_pkg (cfg mem_h) ''sid-1'') ?cA),
         (mem_env ([], []))\<lparr>world := ([?u1], [(''sid-1'', 1)]),
            calls := calls (mem_env ([], [])) @ [CallRegister ?u, CallCreateSession ?sess 3600]\<rparr>)"
    using session_cookie_outcomes [where h = mem_h and P = mem_pkg and c = ?cA and s = "mem_env ([], [])"
        and user = ?u and cu = "\<lparr> User = ?u1, Token = [] \<rparr>" and sid = "''sid-1''"
        and ?w1.0 = "([?u1], [])" and ?w2.0 = "([?u1], [(''sid-1'', 1)])",
        THEN conjunct2, THEN conjunct2, THEN conjunct2, THEN conjunct1]
      rdA regM by (simp add: w id1 csM)
  have s5: "Login mem_h mem_pkg ?c0 (mem_env ([?a], []))
      = (JSON_ErrorResponse mem_pkg (Err ''no body'') ?c0,
         (mem_env ([?a], []))\<lparr>logged := logged (mem_env ([?a], [])) @ [Err ''no body'']\<rparr>)"
    using session_cookie_outcomes [where h = mem_h and P = mem_pkg and c = ?c0 and s = "mem_env ([?a], [])" and e = "Err ''no body''",
        THEN conjunct2, THEN conjunct2, THEN conjunct2, THEN conjunct2, THEN conjunct1]
      ld0 by simp
  have s6: "Login mem_h mem_pkg ?cB (mem_env ([?a], []))
      = (JSON_ErrorResponse mem_pkg (RestErr (NewUnauthorizedError (CauseStr ''login''))) ?cB,
         (mem_env ([?a], []))\<lparr>world := ([?a], []),
            calls := calls (mem_env ([?a], [])) @ [CallLogin (''bob@x.org'', ''secret1'')],
            logged := logged (mem_env ([?a], []))
                        @ [RestErr (NewUnauthorizedError (CauseStr ''login''))]\<rparr>)"
    using session_cookie_outcomes [where h = mem_h and P = mem_pkg and c = ?cB and s = "mem_env ([?a], [])"
        and login = "(''bob@x.org'', ''secret1'')"
        and e = "RestErr (NewUnauthorizedError (CauseStr ''login''))" and ?w1.0 = "([?a], [])",
        THEN conjunct2, THEN conjunct2, THEN conjunct2, THEN conjunct2, THEN conjunct2, THEN conjunct1]
      ldB logB by (simp add: w)
  have s7: "Login down_h mem_pkg ?cL (mem_env ([?a], []))
      = (JSON_ErrorResponse mem_pkg (Err ''cache down'') ?cL,
         (mem_env ([?a], []))\<lparr>world := ([?a], []),
            calls := calls (mem_env ([?a], []))
                       @ [CallLogin (''ann@x.org'', ''secret1''), CallCreateSession ?sess 3600],
            logged := logged (mem_env ([?a], [])) @ [Err ''cache down'']\<rparr>)"
    using session_cookie_outcomes [where h = down_h and P = mem_pkg and c = ?cL and s = "mem_env ([?a], [])"
        and login = "(''ann@x.org'', ''secret1'')" and cu = "\<lparr> User = ?a, Token = [] \<rparr>"
        and e = "Err ''cache down''" and ?w1.0 = "([?a], [])" and ?w2.0 = "([?a], [])",
        THEN conjunct2, THEN conjunct2, THEN conjunct2, THEN conjunct2, THEN conjunct2, THEN conjunct2, THEN conjunct1]
      ldL logD by (simp add: w id1 csD)
  have s8: "Login mem_h mem_pkg ?cL (mem_env ([?a], []))
      = (JSON 200 (JUserWithToken \<lparr> User = ?a, Token = [] \<rparr>)
           (SetCookie (CreateSessionCookie mem_pkg (cfg mem_h) ''sid-1'') ?cL),
         (mem_env ([?a], []))\<lparr>world := ([?a], [(''sid-1'', 1)]),
            calls := calls (mem_env ([?a], []))
                       @ [CallLogin (''ann@x.org'', ''secret1''), CallCreateSession ?sess 3600]\<rparr>)"
    using session_cookie_outcomes [where h = mem_h and P = mem_pkg and c = ?cL and s = "mem_env ([?a], [])"
        and login = "(''ann@x.org'', ''secret1'')" and cu = "\<lparr> User = ?a, Token = [] \<rparr>"
        and sid = "''sid-1''" and ?w1.0 = "([?a], [])" and ?w2.0 = "([?a], [(''sid-1'', 1)])",
        THEN conjunct2, THEN conjunct2, THEN conjunct2, THEN conjunct2, THEN conjunct2, THEN conjunct2, THEN conjunct2, THEN conjunct1]
      ldL logM by (simp add: w id1 csM)
  have er: "ErrorResponse mem_pkg (Err x) = (500, NewInternalServerError (CauseErr (Err x)))"
    "ErrorResponse mem_pkg (RestErr r) = (ErrStatus r, r)" for x r
    by (simp_all add: mem_pkg_def)
  show ?thesis
    unfolding s1 s2 s3 s4 s5 s6 s7 s8
    by (simp add: ck er JSON_ErrorResponse_def JSON_def SetCookie_def mem_env_def mem_ctx_def
        NewUnauthorizedError_def mem_user_def User_zero_def)
qed

text \<open>
  C9 as first stated fails: under a configuration that names no session cookie, every
  step of \<^verbatim>\<open>Register\<close> succeeds and the answer is 201, yet the cookie built has an empty
  name and the response carries no cookie.
\<close>

theorem session_cookie_invalid_name_counterexample:
  "ReadRegister mem_pkg (mem_ctx (mem_req [] [] []) [''body'' \<mapsto> VBytes ''ann''])
      = Inr (User_zero\<lparr>first_name := ''ann'', password := ''secret1''\<rparr>)
   \<and> uc_Register (authUC noname_h) (User_zero\<lparr>first_name := ''ann'', password := ''secret1''\<rparr>) ([], [])
      = (Inr \<lparr> User = User_zero\<lparr>ID := 1, first_name := ''ann'', password := ''secret1''\<rparr>, Token = [] \<rparr>,
         ([User_zero\<lparr>ID := 1, first_name := ''ann'', password := ''secret1''\<rparr>], []))
   \<and> uc_CreateSession (sessUC noname_h) \<lparr> SessionID = [], UserID = 1 \<rparr> (Session_Expire (cfg noname_h))
        ([User_zero\<lparr>ID := 1, first_name := ''ann'', password := ''secret1''\<rparr>], [])
      = (Inr ''sid-1'',
         ([User_zero\<lparr>ID := 1, first_name := ''ann'', password := ''secret1''\<rparr>], [(''sid-1'', 1)]))
   \<and> CreateSessionCookie mem_pkg (cfg noname_h) ''sid-1''
      = Some \<lparr> Name = [], Value = ''sid-1'', MaxAge = 3600 \<rparr>
   \<and> Status (Resp (fst (Register noname_h mem_pkg (mem_ctx (mem_req [] [] []) [''body'' \<mapsto> VBytes ''ann''])
        (mem_env ([], []))))) = Some 201
   \<and> calls (snd (Register noname_h mem_pkg (mem_ctx (mem_req [] [] []) [''body'' \<mapsto> VBytes ''ann''])
        (mem_env ([], []))))
      = [CallRegister (User_zero\<lparr>first_name := ''ann'', password := ''secret1''\<rparr>),
         CallCreateSession \<lparr> SessionID = [], UserID = 1 \<rparr> 3600]
   \<and> SetCookies (Resp (fst (Register noname_h mem_pkg (mem_ctx (mem_req [] [] []) [''body'' \<mapsto> VBytes ''ann''])
        (mem_env ([], []))))) = []"
  by (simp add: Register_def invoke_def noname_h_def mem_authUC_def mem_sessUC_def
      mem_pkg_def mem_ctx_def mem_env_def User_zero_def JSON_def SetCookie_def StatusCreated_def Let_def
      isCookieNameValid_def)

section \<open>Malformed user ids\<close>

text \<open>
  C10. When the path parameter \<^verbatim>\<open>user_id\<close> is not a decimal integer, \<^verbatim>\<open>Update\<close>,
  \<^verbatim>\<open>GetUserByID\<close> and \<^verbatim>\<open>Delete\<close> answer with the error response of the parse failure,
  call no use case and leave the stores as they were.
\<close>

theorem malformed_id_rejected:
  assumes "\<not> is_decimal (Param c ''user_id'')"
  shows "\<exists>k. Atoi (Param c ''user_id'') = Inl (NumError ''Atoi'' (Param c ''user_id'') k)
       \<and> Update h P c s =
           (JSON_ErrorResponse P (NumError ''Atoi'' (Param c ''user_id'') k) c,
            s\<lparr>logged := logged s @ [NumError ''Atoi'' (Param c ''user_id'') k]\<rparr>)
       \<and> GetUserByID h P c s =
           (JSON_ErrorResponse P (NumError ''Atoi'' (Param c ''user_id'') k) c,
            s\<lparr>logged := logged s @ [NumError ''Atoi'' (Param c ''user_id'') k]\<rparr>)
       \<and> Delete h P c s =
           (JSON_ErrorResponse P (NumError ''Atoi'' (Param c ''user_id'') k) c,
            s\<lparr>logged := logged s @ [NumError ''Atoi'' (Param c ''user_id'') k]\<rparr>)
       \<and> calls (snd (Update h P c s)) = calls s \<and> world (snd (Update h P c s)) = world s
       \<and> calls (snd (GetUserByID h P c s)) = calls s \<and> world (snd (GetUserByID h P c s)) = world s
       \<and> calls (snd (Delete h P c s)) = calls s \<and> world (snd (Delete h P c s)) = world s"
proof -
  from Atoi_not_decimal [OF assms] obtain k
    where k: "Atoi (Param c ''user_id'') = Inl (NumError ''Atoi'' (Param c ''user_id'') k)" ..
  then show ?thesis
    by (intro exI [of _ k]) (simp add: Update_def GetUserByID_def Delete_def LogResponseError_def)
qed

theorem malformed_id_rejected_witness:
  "\<not> is_decimal (Param (mem_ctx (mem_req [] [(''user_id'', ''12a'')] []) Map.empty) ''user_id'')
   \<and> world (snd (Delete mem_h mem_pkg (mem_ctx (mem_req [] [(''user_id'', ''12a'')] []) Map.empty)
         (mem_env ([mem_user 12 ''ann''], [])))) = ([mem_user 12 ''ann''], [])
   \<and> calls (snd (Delete mem_h mem_pkg (mem_ctx (mem_req [] [(''user_id'', ''12a'')] []) Map.empty)
         (mem_env ([mem_user 12 ''ann''], [])))) = []
   \<and> Status (Resp (fst (Delete mem_h mem_pkg (mem_ctx (mem_req [] [(''user_id'', ''12a'')] []) Map.empty)
         (mem_env ([mem_user 12 ''ann''], []))))) = Some 400"
proof -
  let ?c = "mem_ctx (mem_req [] [(''user_id'', ''12a'')] []) Map.empty"
  have p: "Param ?c ''user_id'' = ''12a''"
    by (simp add: Param_def mem_ctx_def mem_req_def)
  have nd: "\<not> is_decimal (Param ?c ''user_id'')"
    unfolding p by (simp add: is_decimal_def isDigit_def)
  show ?thesis
    using nd malformed_id_rejected [OF nd, of mem_h mem_pkg "mem_env ([mem_user 12 ''ann''], [])"]
    by (auto simp: p mem_env_def JSON_ErrorResponse_def JSON_def mem_pkg_def mem_ctx_def)
qed

end
